theory Spec2Isabelle
  imports Main "HOL-Library.Product_Lexorder"
begin

section \<open>Python values, errors and the object store\<close>

text \<open>
  The exceptions the modelled code raises, by their Python names. \<open>ValueError\<close> is the
  duplicate-view failure of \<open>Cas.create_view\<close>, \<open>KeyError\<close> the view-not-found failure of
  \<open>Cas.get_view\<close>. \<open>AttributeError\<close> is what Python raises when an attribute that an object
  does not have is read, \<open>TypeError\<close> what it raises for an unhashable dictionary key, an
  unexpected keyword argument or a comparison between unordered values.
  \<open>TypeNotFoundError\<close> is the type system's failure for an unknown type name.
\<close>

datatype error = ValueError | KeyError | TypeError | AttributeError | TypeNotFoundError

type_synonym addr = nat

text \<open>
  Values held by feature fields and by the records of the wire format: \<open>None\<close>, integers,
  strings, lists (the element arrays), byte strings, and references to the objects of the
  store: \<open>PRef\<close> to a feature structure, \<open>PSofa\<close> to a \<open>Sofa\<close>. JSON booleans and
  floating-point numbers are outside the model.
\<close>

datatype pyval = PNone | PInt int | PStr string | PList "pyval list" | PBytes string
  | PRef addr | PSofa addr

text \<open>
  A feature structure is an instance of a class that the type system generates
  (\<open>cassis.typesystem\<close>, not part of the sources). The model keeps what the code reads and
  writes: the \<open>type\<close> attribute, \<open>xmiID\<close> (\<open>None\<close> until one is assigned), the class's
  \<open>__slots__\<close>, the integer offsets \<open>begin\<close> and \<open>end\<close> (meaningful only when the slot exists;
  \<open>_sort_func\<close> is annotated \<open>Tuple[int, int]\<close>), and the remaining features by name, \<open>sofa\<close>
  among them (a missing name is a feature that is \<open>None\<close>).
\<close>

record FeatureStructure =
  fs_type :: string
  xmiID :: "int option"
  slots :: "string list"
  fs_begin :: int
  fs_end :: int
  feats :: "(string \<times> pyval) list"

text \<open>The attrs class \<open>Sofa\<close>.\<close>

record Sofa =
  sofaNum :: int
  sofa_xmiID :: int
  sofaID :: string
  sofaString :: pyval
  mimeType :: pyval
  sofaURI :: pyval

text \<open>
  \<open>sortedcontainers.SortedKeyList\<close> (a third-party library) keeps its values ordered by a
  key that is computed once, when the value is added, and stored beside it. The model is
  the list of (key, value) pairs in index order. Keys are pairs of integers under Python's
  tuple order, which is the lexicographic order of \<open>HOL-Library.Product_Lexorder\<close>.
\<close>

type_synonym key = "int \<times> int"
type_synonym SortedKeyList = "(key \<times> addr) list"

text \<open>
  \<open>View\<close>: the sofa and \<open>_indices\<close>, a \<open>defaultdict\<close> from type names to sorted lists. A
  dictionary is an association list in insertion order; a name without an entry reads as
  the empty list, which is what the \<open>defaultdict\<close> creates on first access.
\<close>

record View =
  view_sofa :: addr
  indices :: "(string \<times> SortedKeyList) list"

text \<open>
  The part of the type system the code consults (\<open>cassis.typesystem\<close> is not part of the
  sources, so it is a parameter): \<open>get_type\<close> by name, failing for an unknown name, and per
  type its name, the name of its supertype, the names of its \<open>children\<close>, its features
  (\<open>all_features\<close>, each with its name, the name of its range type and the flag
  \<open>_has_reserved_name\<close>) and the slots of its instances.
\<close>

record Feature =
  f_name :: string
  rangeTypeName :: string
  has_reserved_name :: bool

record Type =
  t_name :: string
  supertypeName :: string
  children :: "string list"
  all_features :: "Feature list"
  t_slots :: "string list"

type_synonym TypeSystem = "string \<Rightarrow> Type option"

text \<open>
  The store. Python objects are mutable and shared by reference, so every object lives at
  an address: feature structures, sofas, views, \<open>IdGenerator\<close>s (their \<open>_next_id\<close>), the
  dictionaries \<open>_views\<close> and \<open>_sofas\<close> (name to address, in insertion order) and the
  attribute dictionaries of the deserializer. \<open>h_next\<close> is the next free address.
\<close>

record heap =
  h_fs :: "addr \<Rightarrow> FeatureStructure"
  h_sofa :: "addr \<Rightarrow> Sofa"
  h_view :: "addr \<Rightarrow> View"
  h_gen :: "addr \<Rightarrow> int"
  h_views :: "addr \<Rightarrow> (string \<times> addr) list"
  h_sofas :: "addr \<Rightarrow> (string \<times> addr) list"
  h_attrs :: "addr \<Rightarrow> (string \<times> pyval) list"
  h_next :: addr

text \<open>
  A \<open>Cas\<close> object holds only references: the type system, the two dictionaries, the two
  generators and the current view.
\<close>

record Cas =
  typesystem :: TypeSystem
  c_sofas :: addr
  c_views :: addr
  xmi_id_generator :: addr
  sofa_num_generator :: addr
  current_view :: addr

definition alloc :: "heap \<Rightarrow> addr \<times> heap" where
  "alloc h = (h_next h, h\<lparr>h_next := Suc (h_next h)\<rparr>)"

text \<open>Python's \<open>d[k] = v\<close>: an existing key keeps its position, a new key goes last.\<close>

fun dict_set :: "('k \<times> 'v) list \<Rightarrow> 'k \<Rightarrow> 'v \<Rightarrow> ('k \<times> 'v) list" where
  "dict_set [] k v = [(k, v)]"
| "dict_set ((k', v') # d) k v = (if k' = k then (k, v) # d else (k', v') # dict_set d k v)"

definition dict_has :: "('k \<times> 'v) list \<Rightarrow> 'k \<Rightarrow> bool" where
  "dict_has d k = (k \<in> set (map fst d))"

definition dict_pop :: "('k \<times> 'v) list \<Rightarrow> 'k \<Rightarrow> ('k \<times> 'v) list" where
  "dict_pop d k = filter (\<lambda>e. fst e \<noteq> k) d"

section \<open>cas.py\<close>

subsection \<open>IdGenerator\<close>

definition IdGenerator :: "int \<Rightarrow> heap \<Rightarrow> addr \<times> heap" where
  "IdGenerator initial_id h =
     (let (g, h1) = alloc h in (g, h1\<lparr>h_gen := (h_gen h1)(g := initial_id)\<rparr>))"

definition generate_id :: "addr \<Rightarrow> heap \<Rightarrow> int \<times> heap" where
  "generate_id g h = (h_gen h g, h\<lparr>h_gen := (h_gen h)(g := h_gen h g + 1)\<rparr>)"

subsection \<open>The index order\<close>

text \<open>\<open>sys.maxsize\<close> of 64-bit CPython.\<close>

definition maxsize :: int where
  "maxsize = 2 ^ 63 - 1"

definition sort_func :: "FeatureStructure \<Rightarrow> key" where
  "sort_func a =
     (if ''begin'' \<in> set (slots a) \<and> ''end'' \<in> set (slots a) then (fs_begin a, fs_end a)
      else (maxsize, maxsize))"

text \<open>
  \<open>bisect_key_left\<close> is the insertion point before the entries whose key equals the given
  one, \<open>bisect_key_right\<close> the one after them. On a sorted list these are the number of
  entries with a smaller, respectively a smaller or equal, key; the lists of this model are
  sorted (lemma \<open>index_ok_add_annotations\<close>). \<open>add\<close> inserts at \<open>bisect_key_right\<close> of
  the new value's key.
\<close>

definition bisect_key_left :: "SortedKeyList \<Rightarrow> key \<Rightarrow> nat" where
  "bisect_key_left l k = length (takeWhile (\<lambda>e. fst e < k) l)"

definition bisect_key_right :: "SortedKeyList \<Rightarrow> key \<Rightarrow> nat" where
  "bisect_key_right l k = length (takeWhile (\<lambda>e. fst e \<le> k) l)"

definition skl_add :: "SortedKeyList \<Rightarrow> key \<Rightarrow> addr \<Rightarrow> SortedKeyList" where
  "skl_add l k v = (let i = bisect_key_right l k in take i l @ (k, v) # drop i l)"

text \<open>Python's slice \<open>l[i:j]\<close> for indices that are not negative.\<close>

definition slice :: "'a list \<Rightarrow> nat \<Rightarrow> nat \<Rightarrow> 'a list" where
  "slice l i j = take (j - i) (drop i l)"

subsection \<open>View\<close>

definition type_index :: "View \<Rightarrow> string \<Rightarrow> SortedKeyList" where
  "type_index v n = (case map_of (indices v) n of None \<Rightarrow> [] | Some l \<Rightarrow> l)"

text \<open>\<open>self._indices[annotation.type].add(annotation)\<close>, on the view at address \<open>v\<close>.\<close>

definition add_annotation_to_index :: "addr \<Rightarrow> addr \<Rightarrow> heap \<Rightarrow> heap" where
  "add_annotation_to_index v a h =
     (let annotation = h_fs h a;
          view = h_view h v;
          bucket = skl_add (type_index view (fs_type annotation)) (sort_func annotation) a
      in h\<lparr>h_view := (h_view h)(v := view\<lparr>indices := dict_set (indices view) (fs_type annotation) bucket\<rparr>)\<rparr>)"

definition get_all_annotations :: "View \<Rightarrow> addr list" where
  "get_all_annotations v = concat (map (\<lambda>e. map snd (snd e)) (indices v))"

subsection \<open>Cas\<close>

definition get_next_xmi_id :: "Cas \<Rightarrow> heap \<Rightarrow> int \<times> heap" where
  "get_next_xmi_id cas h = generate_id (xmi_id_generator cas) h"

definition get_next_sofa_num :: "Cas \<Rightarrow> heap \<Rightarrow> int \<times> heap" where
  "get_next_sofa_num cas h = generate_id (sofa_num_generator cas) h"

text \<open>
  \<open>Cas._add_view\<close>: the sofa takes the next identifier and the next sofa number, the view
  is built around it, and both are registered under the name.
\<close>

definition add_view :: "Cas \<Rightarrow> string \<Rightarrow> heap \<Rightarrow> heap" where
  "add_view cas name h =
     (let (xid, h1) = get_next_xmi_id cas h;
          (num, h2) = get_next_sofa_num cas h1;
          (s, h3) = alloc h2;
          h4 = h3\<lparr>h_sofa := (h_sofa h3)(s := \<lparr>sofaNum = num, sofa_xmiID = xid, sofaID = name,
                    sofaString = PNone, mimeType = PNone, sofaURI = PNone\<rparr>)\<rparr>;
          (v, h5) = alloc h4;
          h6 = h5\<lparr>h_view := (h_view h5)(v := \<lparr>view_sofa = s, indices = []\<rparr>)\<rparr>;
          h7 = h6\<lparr>h_views := (h_views h6)(c_views cas := dict_set (h_views h6 (c_views cas)) name v)\<rparr>
      in h7\<lparr>h_sofas := (h_sofas h7)(c_sofas cas := dict_set (h_sofas h7 (c_sofas cas)) name s)\<rparr>)"

text \<open>
  \<open>Cas.__init__\<close>: two empty dictionaries, two generators starting at 1, the view
  \<open>_InitialView\<close>, and the current view read back from the dictionary.
\<close>

definition Cas_init :: "TypeSystem \<Rightarrow> heap \<Rightarrow> Cas \<times> heap" where
  "Cas_init ts h =
     (let (sd, h1) = alloc h;
          h2 = h1\<lparr>h_sofas := (h_sofas h1)(sd := [])\<rparr>;
          (vd, h3) = alloc h2;
          h4 = h3\<lparr>h_views := (h_views h3)(vd := [])\<rparr>;
          (xg, h5) = IdGenerator 1 h4;
          (sg, h6) = IdGenerator 1 h5;
          cas = \<lparr>typesystem = ts, c_sofas = sd, c_views = vd, xmi_id_generator = xg,
                  sofa_num_generator = sg, current_view = 0\<rparr>;
          h7 = add_view cas ''_InitialView'' h6
      in (cas\<lparr>current_view := the (map_of (h_views h7 vd) ''_InitialView'')\<rparr>, h7))"

text \<open>
  \<open>Cas._copy\<close> builds a whole new \<open>Cas\<close> (with objects of its own, which become garbage) and
  then points every member at the members of \<open>self\<close>.
\<close>

definition copy :: "Cas \<Rightarrow> heap \<Rightarrow> Cas \<times> heap" where
  "copy self h =
     (let (result, h1) = Cas_init (typesystem self) h
      in (result\<lparr>c_views := c_views self, c_sofas := c_sofas self,
                  current_view := current_view self,
                  sofa_num_generator := sofa_num_generator self,
                  xmi_id_generator := xmi_id_generator self\<rparr>, h1))"

definition get_view :: "Cas \<Rightarrow> string \<Rightarrow> heap \<Rightarrow> (error + Cas) \<times> heap" where
  "get_view self name h =
     (case map_of (h_views h (c_views self)) name of
        Some v \<Rightarrow> (let (result, h1) = copy self h in (Inr (result\<lparr>current_view := v\<rparr>), h1))
      | None \<Rightarrow> (Inl KeyError, h))"

definition create_view :: "Cas \<Rightarrow> string \<Rightarrow> heap \<Rightarrow> (error + Cas) \<times> heap" where
  "create_view self name h =
     (if dict_has (h_views h (c_views self)) name then (Inl ValueError, h)
      else get_view self name (add_view self name h))"

definition get_sofa :: "Cas \<Rightarrow> heap \<Rightarrow> addr" where
  "get_sofa self h = view_sofa (h_view h (current_view self))"

text \<open>
  \<open>Cas.add_annotation\<close>, for the feature structure at address \<open>a\<close>. \<open>hasattr(annotation,
  "sofa")\<close> holds when the class has the slot.
\<close>

definition add_annotation :: "Cas \<Rightarrow> addr \<Rightarrow> heap \<Rightarrow> heap" where
  "add_annotation self a h =
     (let (next_id, h1) = get_next_xmi_id self h;
          h2 = h1\<lparr>h_fs := (h_fs h1)(a := (h_fs h1 a)\<lparr>xmiID := Some next_id\<rparr>)\<rparr>;
          h3 = (if ''sofa'' \<in> set (slots (h_fs h2 a))
                then h2\<lparr>h_fs := (h_fs h2)(a := (h_fs h2 a)\<lparr>feats :=
                         dict_set (feats (h_fs h2 a)) ''sofa'' (PSofa (get_sofa self h2))\<rparr>)\<rparr>
                else h2)
      in add_annotation_to_index (current_view self) a h3)"

fun add_annotations :: "Cas \<Rightarrow> addr list \<Rightarrow> heap \<Rightarrow> heap" where
  "add_annotations self [] h = h"
| "add_annotations self (a # as) h = add_annotations self as (add_annotation self a h)"

text \<open>
  A call binds its arguments before the body runs. \<open>add_annotation\<close> declares the
  parameters \<open>self\<close> and \<open>annotation\<close> only, so a call that passes any keyword argument (as
  \<open>add_annotation(fs, keep_id=True)\<close> does) raises \<open>TypeError\<close> and changes nothing.
\<close>

definition add_annotation_call :: "Cas \<Rightarrow> addr \<Rightarrow> (string \<times> bool) list \<Rightarrow> heap \<Rightarrow> (error + unit) \<times> heap" where
  "add_annotation_call self a kwargs h =
     (if kwargs = [] then (Inr (), add_annotation self a h) else (Inl TypeError, h))"

subsection \<open>Queries\<close>

text \<open>Sequencing of steps that may raise: the first error ends the computation.\<close>

definition bind :: "error + 'a \<Rightarrow> ('a \<Rightarrow> error + 'b) \<Rightarrow> error + 'b" where
  "bind m f = (case m of Inl e \<Rightarrow> Inl e | Inr x \<Rightarrow> f x)"

text \<open>
  Reading \<open>annotation.begin\<close> and \<open>annotation.end\<close>: an instance of a class without the slot
  has no such attribute, and Python raises \<open>AttributeError\<close>.
\<close>

definition get_begin :: "FeatureStructure \<Rightarrow> error + int" where
  "get_begin a = (if ''begin'' \<in> set (slots a) then Inr (fs_begin a) else Inl AttributeError)"

definition get_end :: "FeatureStructure \<Rightarrow> error + int" where
  "get_end a = (if ''end'' \<in> set (slots a) then Inr (fs_end a) else Inl AttributeError)"

text \<open>
  \<open>typesystem.get_type\<close>, and the set \<open>{c.name for c in t.children}\<close> with \<open>type_name\<close> added. A
  Python set has no duplicates and no specified iteration order; the model visits the
  children first, in the type system's order, and each name once.
\<close>

definition get_type :: "TypeSystem \<Rightarrow> string \<Rightarrow> error + Type" where
  "get_type ts n = (case ts n of None \<Rightarrow> Inl TypeNotFoundError | Some t \<Rightarrow> Inr t)"

definition type_names :: "Type \<Rightarrow> string \<Rightarrow> string list" where
  "type_names t type_name = remdups (children t @ [type_name])"

text \<open>
  The queries are generators. The model is the list of everything the generator yields when
  it is run to its end, or the error that stops it.
\<close>

definition get_feature_structures :: "Cas \<Rightarrow> string \<Rightarrow> heap \<Rightarrow> error + addr list" where
  "get_feature_structures self type_name h =
     bind (get_type (typesystem self) type_name) (\<lambda>t.
       Inr (concat (map (\<lambda>name. map snd (type_index (h_view h (current_view self)) name))
                        (type_names t type_name))))"

definition get_feature_structures_in_range :: "Cas \<Rightarrow> string \<Rightarrow> int \<Rightarrow> int \<Rightarrow> heap \<Rightarrow> error + addr list" where
  "get_feature_structures_in_range self type_name r_begin r_end h =
     bind (get_type (typesystem self) type_name) (\<lambda>t.
       Inr (concat (map (\<lambda>name.
              let annotations = type_index (h_view h (current_view self)) name;
                  idx_begin = nat (max (int (bisect_key_left annotations (r_begin, r_end)) - 1) 0);
                  idx_end = min (bisect_key_right annotations (r_end, r_begin)) (length annotations)
              in map snd (slice annotations idx_begin idx_end))
            (type_names t type_name))))"

text \<open>
  The loop of \<open>select_covered\<close> over the candidates. Python's \<open>and\<close> reads \<open>annotation.end\<close>
  only when the first comparison holds.
\<close>

fun covered_loop :: "heap \<Rightarrow> int \<Rightarrow> int \<Rightarrow> addr list \<Rightarrow> error + addr list" where
  "covered_loop h c_begin c_end [] = Inr []"
| "covered_loop h c_begin c_end (a # as) =
     bind (get_begin (h_fs h a)) (\<lambda>b.
       if b \<ge> c_begin
       then bind (get_end (h_fs h a)) (\<lambda>e.
              if e \<le> c_end
              then bind (covered_loop h c_begin c_end as) (\<lambda>rest. Inr (a # rest))
              else covered_loop h c_begin c_end as)
       else covered_loop h c_begin c_end as)"

definition select_covered :: "Cas \<Rightarrow> string \<Rightarrow> addr \<Rightarrow> heap \<Rightarrow> error + addr list" where
  "select_covered self type_name covering_annotation h =
     bind (get_begin (h_fs h covering_annotation)) (\<lambda>c_begin.
     bind (get_end (h_fs h covering_annotation)) (\<lambda>c_end.
     bind (get_feature_structures_in_range self type_name c_begin c_end h)
       (covered_loop h c_begin c_end)))"

fun covering_loop :: "heap \<Rightarrow> int \<Rightarrow> int \<Rightarrow> addr list \<Rightarrow> error + addr list" where
  "covering_loop h c_begin c_end [] = Inr []"
| "covering_loop h c_begin c_end (a # as) =
     bind (get_begin (h_fs h a)) (\<lambda>b.
       if c_begin \<ge> b
       then bind (get_end (h_fs h a)) (\<lambda>e.
              if c_end \<le> e
              then bind (covering_loop h c_begin c_end as) (\<lambda>rest. Inr (a # rest))
              else covering_loop h c_begin c_end as)
       else covering_loop h c_begin c_end as)"

definition select_covering :: "Cas \<Rightarrow> string \<Rightarrow> addr \<Rightarrow> heap \<Rightarrow> error + addr list" where
  "select_covering self type_name covered_annotation h =
     bind (get_begin (h_fs h covered_annotation)) (\<lambda>c_begin.
     bind (get_end (h_fs h covered_annotation)) (\<lambda>c_end.
     bind (get_feature_structures self type_name h)
       (covering_loop h c_begin c_end)))"

definition select :: "Cas \<Rightarrow> string \<Rightarrow> heap \<Rightarrow> error + addr list" where
  "select self type_name h = get_feature_structures self type_name h"

definition select_all :: "Cas \<Rightarrow> heap \<Rightarrow> addr list" where
  "select_all self h = get_all_annotations (h_view h (current_view self))"

section \<open>json.py\<close>

subsection \<open>Names\<close>

definition RESERVED_FIELD_PREFIX :: char where "RESERVED_FIELD_PREFIX = CHR ''%''"
definition REF_FEATURE_PREFIX :: char where "REF_FEATURE_PREFIX = CHR ''@''"
definition TYPE_FIELD :: string where "TYPE_FIELD = ''%TYPE''"
definition ID_FIELD :: string where "ID_FIELD = ''%ID''"
definition ELEMENTS_FIELD :: string where "ELEMENTS_FIELD = ''%ELEMENTS''"
definition VIEW_SOFA_FIELD :: string where "VIEW_SOFA_FIELD = ''%SOFA''"
definition VIEW_INDEX_FIELD :: string where "VIEW_INDEX_FIELD = ''%INDEX''"

text \<open>
  Modelled from the spec: json.py reads the names below as class constants of \<open>Cas\<close>
  (\<open>Cas.TYPE_NAME_SOFA\<close>, \<open>Cas.NAME_DEFAULT_SOFA\<close>, \<open>Cas.FEATURE_BASE_NAME_...\<close>,
  \<open>Cas.TYPE_NAME_BYTE_ARRAY\<close>), which cas.py does not define. The default view name is the
  one \<open>Cas.__init__\<close> registers, the feature names are the field names of the class \<open>Sofa\<close>,
  the type names are UIMA's.
\<close>

definition TYPE_NAME_SOFA :: string where "TYPE_NAME_SOFA = ''uima.cas.Sofa''"
definition TYPE_NAME_BYTE_ARRAY :: string where "TYPE_NAME_BYTE_ARRAY = ''uima.cas.ByteArray''"
definition NAME_DEFAULT_SOFA :: string where "NAME_DEFAULT_SOFA = ''_InitialView''"
definition FEATURE_BASE_NAME_SOFAID :: string where "FEATURE_BASE_NAME_SOFAID = ''sofaID''"
definition FEATURE_BASE_NAME_SOFANUM :: string where "FEATURE_BASE_NAME_SOFANUM = ''sofaNum''"
definition FEATURE_BASE_NAME_SOFASTRING :: string where "FEATURE_BASE_NAME_SOFASTRING = ''sofaString''"
definition FEATURE_BASE_NAME_SOFAMIME :: string where "FEATURE_BASE_NAME_SOFAMIME = ''mimeType''"
definition FEATURE_BASE_NAME_SOFAURI :: string where "FEATURE_BASE_NAME_SOFAURI = ''sofaURI''"
definition FEATURE_BASE_NAME_SOFAARRAY :: string where "FEATURE_BASE_NAME_SOFAARRAY = ''sofaArray''"

subsection \<open>The wire data\<close>

text \<open>
  The parsed JSON document \<open>data\<close>. A record, like every JSON object, is a dictionary in
  insertion order. The feature-structure section is missing, a list of records, or a
  dictionary from stringified identifiers to records; for the dictionary form the model
  keeps, instead of the key, what \<open>int(fs_id)\<close> makes of it (\<open>None\<close> where \<open>int\<close> raises
  \<open>ValueError\<close>). The views section is a dictionary from view names to view summaries, or
  missing. The types section is read and ignored.
\<close>

type_synonym json_object = "(string \<times> pyval) list"

datatype fs_section = FsAbsent | FsList "json_object list" | FsDict "(int option \<times> json_object) list"

record wire =
  FEATURE_STRUCTURES_FIELD :: fs_section
  VIEWS_FIELD :: "(string \<times> json_object) list option"

definition json_get :: "json_object \<Rightarrow> string \<Rightarrow> pyval" where
  "json_get d k = (case map_of d k of None \<Rightarrow> PNone | Some v \<Rightarrow> v)"

definition startswith :: "string \<Rightarrow> char \<Rightarrow> bool" where
  "startswith s c = (case s of [] \<Rightarrow> False | x # _ \<Rightarrow> x = c)"

subsection \<open>The deserializer's state\<close>

text \<open>
  A deferred fix-up, by what it will do when called: the address of the dictionary it writes,
  and the feature name and the value it will find in the variables it closes over.
  \<open>feature_structures\<close> is the dictionary from identifiers to the objects built so far.
\<close>

record fix_up =
  fx_attributes :: addr
  fx_feature_name :: string
  fx_value :: pyval

record CasJsonDeserializer =
  max_xmi_id :: int
  max_sofa_num :: int
  post_processors :: "fix_up list"

type_synonym fs_table = "(int \<times> pyval) list"

text \<open>
  \<open>feature_structures.get(value)\<close>: a list is unhashable and raises \<open>TypeError\<close>; any other
  value that is not the identifier of an object yields \<open>None\<close>.
\<close>

definition table_get :: "fs_table \<Rightarrow> pyval \<Rightarrow> error + pyval option" where
  "table_get tab v =
     (case v of PInt i \<Rightarrow> Inr (map_of tab i) | PList _ \<Rightarrow> Inl TypeError | _ \<Rightarrow> Inr None)"

record frame =
  fr_feature_name :: string
  fr_value :: pyval
  fr_deferred :: nat

text \<open>
  \<open>_resolve_references\<close>. The loop runs over a snapshot of the items and rewrites the
  dictionary \<open>attributes\<close>; the model passes the dictionary along and the caller stores it
  at its address afterwards. \<open>fix_up\<close> is a closure over the local variables
  \<open>attributes\<close>, \<open>feature_name\<close> and \<open>value\<close> of this call: it reads them when it is called,
  after the loop has ended, so every closure registered by one call sees the values the
  variables had last. The frame keeps those values and counts the closures registered.
\<close>

fun resolve_loop :: "fs_table \<Rightarrow> json_object \<Rightarrow> json_object \<Rightarrow> frame \<Rightarrow> error + json_object \<times> frame" where
  "resolve_loop tab [] attributes fr = Inr (attributes, fr)"
| "resolve_loop tab ((key, value) # items) attributes fr =
     (if startswith key REF_FEATURE_PREFIX
      then (let popped = dict_pop attributes key;
                feature_name = tl key
            in case table_get tab value of
                 Inl e \<Rightarrow> Inl e
               | Inr (Some target_fs) \<Rightarrow>
                   resolve_loop tab items (dict_set popped feature_name target_fs)
                     (fr\<lparr>fr_feature_name := feature_name, fr_value := value\<rparr>)
               | Inr None \<Rightarrow>
                   resolve_loop tab items popped
                     (fr\<lparr>fr_feature_name := feature_name, fr_value := value,
                         fr_deferred := Suc (fr_deferred fr)\<rparr>))
      else resolve_loop tab items attributes (fr\<lparr>fr_value := value\<rparr>))"

definition resolve_references ::
  "addr \<Rightarrow> json_object \<Rightarrow> fs_table \<Rightarrow> error + json_object \<times> fix_up list" where
  "resolve_references d attributes tab =
     bind (resolve_loop tab attributes attributes
             \<lparr>fr_feature_name = [], fr_value = PNone, fr_deferred = 0\<rparr>)
       (\<lambda>(attributes', fr).
          Inr (attributes',
               replicate (fr_deferred fr)
                 \<lparr>fx_attributes = d, fx_feature_name = fr_feature_name fr, fx_value = fr_value fr\<rparr>))"

definition strip_reserved_json_keys :: "json_object \<Rightarrow> json_object" where
  "strip_reserved_json_keys attributes =
     filter (\<lambda>e. \<not> startswith (fst e) RESERVED_FIELD_PREFIX) attributes"

text \<open>
  Modelled from the spec: the construction \<open>AnnotationType(**attributes)\<close> of a feature
  structure "through the type system's type lookup", a record of the type name, the
  identifier and the field mapping. The generated classes are attrs classes with slots, so
  the model accepts only attributes that are slots of the type; it requires integer values
  for \<open>begin\<close> and \<open>end\<close> where the type has these slots, since the index order is defined on
  integers.
\<close>

definition int_slot :: "Type \<Rightarrow> json_object \<Rightarrow> string \<Rightarrow> error + int" where
  "int_slot t attributes n =
     (if n \<in> set (t_slots t)
      then (case map_of attributes n of Some (PInt i) \<Rightarrow> Inr i | _ \<Rightarrow> Inl TypeError)
      else Inr 0)"

definition construct :: "Type \<Rightarrow> json_object \<Rightarrow> error + FeatureStructure" where
  "construct t attributes =
     (if list_all (\<lambda>k. k \<in> set (t_slots t)) (map fst attributes)
      then bind (int_slot t attributes ''begin'') (\<lambda>b.
           bind (int_slot t attributes ''end'') (\<lambda>e.
             Inr \<lparr>fs_type = t_name t,
                  xmiID = (case map_of attributes ''xmiID'' of Some (PInt i) \<Rightarrow> Some i | _ \<Rightarrow> None),
                  slots = t_slots t, fs_begin = b, fs_end = e,
                  feats = filter (\<lambda>e. fst e \<notin> {''xmiID'', ''begin'', ''end''}) attributes\<rparr>))
      else Inl TypeError)"

text \<open>\<open>if old in attributes: attributes[new] = attributes.pop(old)\<close>.\<close>

definition rename_key :: "json_object \<Rightarrow> string \<Rightarrow> string \<Rightarrow> json_object" where
  "rename_key attributes old new =
     (if dict_has attributes old
      then dict_set (dict_pop attributes old) new (json_get attributes old)
      else attributes)"

text \<open>
  \<open>base64.b64decode\<close>: the bytes are represented by the text that encodes them; a value that
  is not a string raises \<open>TypeError\<close>.
\<close>

definition b64decode :: "pyval \<Rightarrow> error + pyval" where
  "b64decode v = (case v of PStr s \<Rightarrow> Inr (PBytes s) | _ \<Rightarrow> Inl TypeError)"

definition type_of_record :: "TypeSystem \<Rightarrow> pyval \<Rightarrow> error + Type" where
  "type_of_record ts v = (case v of PStr n \<Rightarrow> get_type ts n | _ \<Rightarrow> Inl TypeNotFoundError)"

text \<open>
  \<open>_parse_feature_structure\<close>. The dictionary \<open>attributes\<close> is an object of its own (the
  closures keep it alive), at address \<open>d\<close>; the feature structure is built from the keyword
  arguments \<open>**attributes\<close>, that is from the dictionary's content at that moment.
\<close>

definition parse_feature_structure ::
  "TypeSystem \<Rightarrow> pyval \<Rightarrow> json_object \<Rightarrow> fs_table \<Rightarrow> CasJsonDeserializer \<Rightarrow> heap
     \<Rightarrow> (error + addr) \<times> CasJsonDeserializer \<times> heap" where
  "parse_feature_structure ts fs_id json_fs tab self h =
     (case type_of_record ts (json_get json_fs TYPE_FIELD) of
        Inl e \<Rightarrow> (Inl e, self, h)
      | Inr AnnotationType \<Rightarrow>
          (let (d, h1) = alloc h;
               attributes1 = dict_set json_fs ''xmiID'' fs_id;
               attributes2 = rename_key attributes1 ''self'' ''self_'';
               attributes3 = rename_key attributes2 ''type'' ''type_''
           in case bind (if t_name AnnotationType = TYPE_NAME_BYTE_ARRAY
                         then bind (b64decode (json_get attributes3 ELEMENTS_FIELD))
                                (\<lambda>bytes. Inr (dict_set attributes3 ''elements'' bytes))
                         else Inr attributes3)
                     (\<lambda>attributes4. resolve_references d attributes4 tab) of
                Inl e \<Rightarrow> (Inl e, self, h1)
              | Inr (attributes5, fix_ups) \<Rightarrow>
                  (let attributes6 = strip_reserved_json_keys attributes5;
                       self1 = self\<lparr>post_processors := post_processors self @ fix_ups\<rparr>;
                       h2 = h1\<lparr>h_attrs := (h_attrs h1)(d := attributes6)\<rparr>
                   in case json_get attributes6 ''xmiID'' of
                        PInt i \<Rightarrow>
                          (let self2 = self1\<lparr>max_xmi_id := max i (max_xmi_id self1)\<rparr>
                           in case construct AnnotationType attributes6 of
                                Inl e \<Rightarrow> (Inl e, self2, h2)
                              | Inr fs \<Rightarrow>
                                  (let (a, h3) = alloc h2
                                   in (Inr a, self2, h3\<lparr>h_fs := (h_fs h3)(a := fs)\<rparr>)))
                      | _ \<Rightarrow> (Inl TypeError, self1, h2))))"

subsection \<open>The Cas interface json.py is written against\<close>

text \<open>
  Modelled from the spec: \<open>create_view(name, xmiID=fs_id, sofaNum=sofa_num)\<close>, the call of
  \<open>_get_or_create_view\<close>; the \<open>create_view\<close> of cas.py takes the name only. The view is created
  "if its name is new", around a sofa that carries the given identifier and sofa number;
  one that is not given is "auto-assigned", that is taken from the generator. The
  duplicate-view failure is that of \<open>create_view\<close>.
\<close>

definition add_view_ids :: "Cas \<Rightarrow> string \<Rightarrow> int option \<Rightarrow> int option \<Rightarrow> heap \<Rightarrow> heap" where
  "add_view_ids cas name xmi num h =
     (let (xid, h1) = (case xmi of None \<Rightarrow> get_next_xmi_id cas h | Some i \<Rightarrow> (i, h));
          (snum, h2) = (case num of None \<Rightarrow> get_next_sofa_num cas h1 | Some n \<Rightarrow> (n, h1));
          (s, h3) = alloc h2;
          h4 = h3\<lparr>h_sofa := (h_sofa h3)(s := \<lparr>sofaNum = snum, sofa_xmiID = xid, sofaID = name,
                    sofaString = PNone, mimeType = PNone, sofaURI = PNone\<rparr>)\<rparr>;
          (v, h5) = alloc h4;
          h6 = h5\<lparr>h_view := (h_view h5)(v := \<lparr>view_sofa = s, indices = []\<rparr>)\<rparr>;
          h7 = h6\<lparr>h_views := (h_views h6)(c_views cas := dict_set (h_views h6 (c_views cas)) name v)\<rparr>
      in h7\<lparr>h_sofas := (h_sofas h7)(c_sofas cas := dict_set (h_sofas h7 (c_sofas cas)) name s)\<rparr>)"

definition create_view_ids ::
  "Cas \<Rightarrow> string \<Rightarrow> int option \<Rightarrow> int option \<Rightarrow> heap \<Rightarrow> (error + Cas) \<times> heap" where
  "create_view_ids self name xmi num h =
     (if dict_has (h_views h (c_views self)) name then (Inl ValueError, h)
      else get_view self name (add_view_ids self name xmi num h))"

text \<open>
  Modelled from the spec: \<open>add_annotation(fs, keep_id=True)\<close>, the call of \<open>_parse_view\<close>; the
  \<open>add_annotation\<close> of cas.py has no such parameter. In this mode the structure keeps the
  identifier it carries and no identifier is allocated; the sofa is attached and the
  structure indexed as in \<open>add_annotation\<close>.
\<close>

definition add_annotation_keep_id :: "Cas \<Rightarrow> addr \<Rightarrow> heap \<Rightarrow> heap" where
  "add_annotation_keep_id self a h =
     (let h1 = (if ''sofa'' \<in> set (slots (h_fs h a))
                then h\<lparr>h_fs := (h_fs h)(a := (h_fs h a)\<lparr>feats :=
                         dict_set (feats (h_fs h a)) ''sofa'' (PSofa (get_sofa self h))\<rparr>)\<rparr>
                else h)
      in add_annotation_to_index (current_view self) a h1)"

subsection \<open>Sofas and views\<close>

text \<open>
  The identifier and the sofa number of a sofa are integers (the attrs validators of \<open>Sofa\<close>);
  \<open>None\<close> stands for "not given". The model reports any other value as \<open>TypeError\<close>.
\<close>

definition opt_int :: "pyval \<Rightarrow> error + int option" where
  "opt_int v = (case v of PNone \<Rightarrow> Inr None | PInt i \<Rightarrow> Inr (Some i) | _ \<Rightarrow> Inl TypeError)"

definition get_or_create_view ::
  "Cas \<Rightarrow> pyval \<Rightarrow> pyval \<Rightarrow> pyval \<Rightarrow> heap \<Rightarrow> (error + Cas) \<times> heap" where
  "get_or_create_view cas view_name fs_id sofa_num h =
     (case view_name of
        PStr n \<Rightarrow>
          (if n = NAME_DEFAULT_SOFA
           then (case get_view cas NAME_DEFAULT_SOFA h of
                   (Inl e, h1) \<Rightarrow> (Inl e, h1)
                 | (Inr view, h1) \<Rightarrow>
                     (case opt_int fs_id of
                        Inl e \<Rightarrow> (Inl e, h1)
                      | Inr None \<Rightarrow> (Inr view, h1)
                      | Inr (Some i) \<Rightarrow>
                          (Inr view, h1\<lparr>h_sofa := (h_sofa h1)(get_sofa view h1 :=
                             (h_sofa h1 (get_sofa view h1))\<lparr>sofa_xmiID := i\<rparr>)\<rparr>)))
           else (case opt_int fs_id of
                   Inl e \<Rightarrow> (Inl e, h)
                 | Inr xmi \<Rightarrow>
                     (case opt_int sofa_num of
                        Inl e \<Rightarrow> (Inl e, h)
                      | Inr num \<Rightarrow> create_view_ids cas n xmi num h)))
      | _ \<Rightarrow> (Inl TypeError, h))"

text \<open>
  \<open>_parse_sofa\<close>. The three setters write the sofa of the view's handle. \<open>view.sofa_array = ...\<close>
  sets an attribute of the handle object itself, which is dropped with the handle; the
  lookup that computes its value can still raise.
\<close>

definition set_sofa_fields :: "addr \<Rightarrow> pyval \<Rightarrow> pyval \<Rightarrow> pyval \<Rightarrow> heap \<Rightarrow> heap" where
  "set_sofa_fields s text mime uri h =
     h\<lparr>h_sofa := (h_sofa h)(s := (h_sofa h s)\<lparr>sofaString := text, mimeType := mime, sofaURI := uri\<rparr>)\<rparr>"

definition parse_sofa ::
  "Cas \<Rightarrow> pyval \<Rightarrow> json_object \<Rightarrow> fs_table \<Rightarrow> heap \<Rightarrow> (error + addr) \<times> heap" where
  "parse_sofa cas fs_id json_fs tab h =
     (case get_or_create_view cas (json_get json_fs FEATURE_BASE_NAME_SOFAID) fs_id
             (json_get json_fs FEATURE_BASE_NAME_SOFANUM) h of
        (Inl e, h1) \<Rightarrow> (Inl e, h1)
      | (Inr view, h1) \<Rightarrow>
          (let h2 = set_sofa_fields (get_sofa view h1)
                      (json_get json_fs FEATURE_BASE_NAME_SOFASTRING)
                      (json_get json_fs FEATURE_BASE_NAME_SOFAMIME)
                      (json_get json_fs FEATURE_BASE_NAME_SOFAURI) h1
           in case table_get tab (json_get json_fs (REF_FEATURE_PREFIX # FEATURE_BASE_NAME_SOFAARRAY)) of
                Inl e \<Rightarrow> (Inl e, h2)
              | Inr _ \<Rightarrow> (Inr (get_sofa view h2), h2)))"

text \<open>
  \<open>_parse_view\<close>: \<open>feature_structures[member_id]\<close> raises \<open>KeyError\<close> for an identifier without
  object; a \<open>Sofa\<close> has no \<open>type\<close> attribute and cannot be indexed.
\<close>

fun add_members :: "Cas \<Rightarrow> fs_table \<Rightarrow> pyval list \<Rightarrow> heap \<Rightarrow> (error + unit) \<times> heap" where
  "add_members view tab [] h = (Inr (), h)"
| "add_members view tab (member_id # ms) h =
     (case member_id of
        PList _ \<Rightarrow> (Inl TypeError, h)
      | PInt i \<Rightarrow>
          (case map_of tab i of
             None \<Rightarrow> (Inl KeyError, h)
           | Some (PRef a) \<Rightarrow> add_members view tab ms (add_annotation_keep_id view a h)
           | Some _ \<Rightarrow> (Inl AttributeError, h))
      | _ \<Rightarrow> (Inl KeyError, h))"

definition parse_view ::
  "Cas \<Rightarrow> string \<Rightarrow> json_object \<Rightarrow> fs_table \<Rightarrow> heap \<Rightarrow> (error + unit) \<times> heap" where
  "parse_view cas view_name json_view tab h =
     (case get_or_create_view cas (PStr view_name) PNone PNone h of
        (Inl e, h1) \<Rightarrow> (Inl e, h1)
      | (Inr view, h1) \<Rightarrow>
          (case map_of json_view VIEW_INDEX_FIELD of
             None \<Rightarrow> (Inl KeyError, h1)
           | Some (PList members) \<Rightarrow> add_members view tab members h1
           | Some (PStr s) \<Rightarrow> (if s = [] then (Inr (), h1) else (Inl KeyError, h1))
           | Some _ \<Rightarrow> (Inl TypeError, h1)))"

subsection \<open>deserialize\<close>

definition parse_record ::
  "TypeSystem \<Rightarrow> Cas \<Rightarrow> error + pyval \<Rightarrow> json_object \<Rightarrow> fs_table \<Rightarrow> CasJsonDeserializer \<Rightarrow> heap
     \<Rightarrow> (error + fs_table) \<times> CasJsonDeserializer \<times> heap" where
  "parse_record ts cas key_id json_fs tab self h =
     (case key_id of
        Inl e \<Rightarrow> (Inl e, self, h)
      | Inr fs_id \<Rightarrow>
          (if json_get json_fs TYPE_FIELD = PStr TYPE_NAME_SOFA
           then (case parse_sofa cas fs_id json_fs tab h of
                   (Inl e, h1) \<Rightarrow> (Inl e, self, h1)
                 | (Inr s, h1) \<Rightarrow> (Inr (dict_set tab (sofa_xmiID (h_sofa h1 s)) (PSofa s)), self, h1))
           else (case parse_feature_structure ts fs_id json_fs tab self h of
                   (Inl e, self1, h1) \<Rightarrow> (Inl e, self1, h1)
                 | (Inr a, self1, h1) \<Rightarrow>
                     (case xmiID (h_fs h1 a) of
                        None \<Rightarrow> (Inl TypeError, self1, h1)
                      | Some i \<Rightarrow> (Inr (dict_set tab i (PRef a)), self1, h1)))))"

fun parse_records ::
  "TypeSystem \<Rightarrow> Cas \<Rightarrow> ((error + pyval) \<times> json_object) list \<Rightarrow> fs_table \<Rightarrow> CasJsonDeserializer \<Rightarrow> heap
     \<Rightarrow> (error + fs_table) \<times> CasJsonDeserializer \<times> heap" where
  "parse_records ts cas [] tab self h = (Inr tab, self, h)"
| "parse_records ts cas ((key_id, json_fs) # rs) tab self h =
     (case parse_record ts cas key_id json_fs tab self h of
        (Inl e, self1, h1) \<Rightarrow> (Inl e, self1, h1)
      | (Inr tab1, self1, h1) \<Rightarrow> parse_records ts cas rs tab1 self1 h1)"

definition records_of :: "fs_section \<Rightarrow> ((error + pyval) \<times> json_object) list" where
  "records_of sec =
     (case sec of
        FsAbsent \<Rightarrow> []
      | FsList l \<Rightarrow> map (\<lambda>json_fs. (Inr (json_get json_fs ID_FIELD), json_fs)) l
      | FsDict d \<Rightarrow> map (\<lambda>(k, json_fs). ((case k of None \<Rightarrow> Inl ValueError | Some i \<Rightarrow> Inr (PInt i)), json_fs)) d)"

fun run_post_processors :: "fix_up list \<Rightarrow> fs_table \<Rightarrow> heap \<Rightarrow> (error + unit) \<times> heap" where
  "run_post_processors [] tab h = (Inr (), h)"
| "run_post_processors (p # ps) tab h =
     (case table_get tab (fx_value p) of
        Inl e \<Rightarrow> (Inl e, h)
      | Inr r \<Rightarrow>
          run_post_processors ps tab
            (h\<lparr>h_attrs := (h_attrs h)(fx_attributes p :=
                 dict_set (h_attrs h (fx_attributes p)) (fx_feature_name p)
                   (case r of None \<Rightarrow> PNone | Some target \<Rightarrow> target))\<rparr>))"

fun parse_views :: "Cas \<Rightarrow> (string \<times> json_object) list \<Rightarrow> fs_table \<Rightarrow> heap \<Rightarrow> (error + unit) \<times> heap" where
  "parse_views cas [] tab h = (Inr (), h)"
| "parse_views cas ((view_name, json_view) # vs) tab h =
     (case parse_view cas view_name json_view tab h of
        (Inl e, h1) \<Rightarrow> (Inl e, h1)
      | (Inr _, h1) \<Rightarrow> parse_views cas vs tab h1)"

definition deserialize :: "wire \<Rightarrow> TypeSystem \<Rightarrow> heap \<Rightarrow> (error + Cas) \<times> heap" where
  "deserialize data ts h =
     (let self = \<lparr>max_xmi_id = 0, max_sofa_num = 0, post_processors = []\<rparr>;
          (cas, h1) = Cas_init ts h
      in case parse_records ts cas (records_of (FEATURE_STRUCTURES_FIELD data)) [] self h1 of
           (Inl e, self1, h2) \<Rightarrow> (Inl e, h2)
         | (Inr feature_structures, self1, h2) \<Rightarrow>
             (case run_post_processors (post_processors self1) feature_structures h2 of
                (Inl e, h3) \<Rightarrow> (Inl e, h3)
              | (Inr _, h3) \<Rightarrow>
                  (let (xg, h4) = IdGenerator (max_xmi_id self1 + 1) h3;
                       (sg, h5) = IdGenerator (max_sofa_num self1 + 1) h4;
                       cas1 = cas\<lparr>xmi_id_generator := xg, sofa_num_generator := sg\<rparr>
                   in case VIEWS_FIELD data of
                        None \<Rightarrow> (Inl AttributeError, h5)
                      | Some json_views \<Rightarrow>
                          (case parse_views cas1 json_views feature_structures h5 of
                             (Inl e, h6) \<Rightarrow> (Inl e, h6)
                           | (Inr _, h6) \<Rightarrow> (Inr cas1, h6)))))"

definition load_cas_from_json :: "wire \<Rightarrow> TypeSystem \<Rightarrow> heap \<Rightarrow> (error + Cas) \<times> heap" where
  "load_cas_from_json source ts h = deserialize source ts h"

subsection \<open>CasJsonSerializer\<close>

definition COMMON_FIELD_NAMES :: "string list" where
  "COMMON_FIELD_NAMES = [''xmiID'', ''type'']"

definition TYPE_NAME_ARRAY_BASE :: string where
  "TYPE_NAME_ARRAY_BASE = ''uima.cas.ArrayBase''"

text \<open>
  \<open>getattr(fs, name)\<close> for a feature structure and for a sofa, and \<open>value.xmiID\<close>; a value that
  is no object has no attribute. Modelled from the spec: the attributes \<open>type\<close> and \<open>sofaArray\<close>
  of a sofa, which the class \<open>Sofa\<close> of cas.py does not declare; \<open>type\<close> is the sofa type's name
  and \<open>sofaArray\<close>, "the optional reference to an array", is never set by the code and reads
  as \<open>None\<close>, so the branch that serializes the array is never taken.
\<close>

definition id_value :: "int option \<Rightarrow> pyval" where
  "id_value i = (case i of None \<Rightarrow> PNone | Some n \<Rightarrow> PInt n)"

definition fs_getattr :: "FeatureStructure \<Rightarrow> string \<Rightarrow> error + pyval" where
  "fs_getattr fs n =
     (if n \<notin> set (slots fs) then Inl AttributeError
      else if n = ''xmiID'' then Inr (id_value (xmiID fs))
      else if n = ''type'' then Inr (PStr (fs_type fs))
      else if n = ''begin'' then Inr (PInt (fs_begin fs))
      else if n = ''end'' then Inr (PInt (fs_end fs))
      else Inr (json_get (feats fs) n))"

definition sofa_getattr :: "Sofa \<Rightarrow> string \<Rightarrow> error + pyval" where
  "sofa_getattr s n =
     (if n = ''sofaNum'' then Inr (PInt (sofaNum s))
      else if n = ''xmiID'' then Inr (PInt (sofa_xmiID s))
      else if n = ''sofaID'' then Inr (PStr (sofaID s))
      else if n = ''sofaString'' then Inr (sofaString s)
      else if n = ''mimeType'' then Inr (mimeType s)
      else if n = ''sofaURI'' then Inr (sofaURI s)
      else if n = ''sofaArray'' then Inr PNone
      else if n = ''type'' then Inr (PStr TYPE_NAME_SOFA)
      else Inl AttributeError)"

definition getattr :: "heap \<Rightarrow> pyval \<Rightarrow> string \<Rightarrow> error + pyval" where
  "getattr h obj n =
     (case obj of
        PRef a \<Rightarrow> fs_getattr (h_fs h a) n
      | PSofa s \<Rightarrow> sofa_getattr (h_sofa h s) n
      | _ \<Rightarrow> Inl AttributeError)"

text \<open>\<open>base64.b64encode(value).decode("ascii")\<close>, on the representation of bytes by their text.\<close>

definition b64encode :: "pyval \<Rightarrow> error + pyval" where
  "b64encode v = (case v of PBytes s \<Rightarrow> Inr (PStr s) | _ \<Rightarrow> Inl TypeError)"

text \<open>
  The loop of \<open>_serialize_feature_structure\<close> over \<open>t.all_features\<close>. \<open>is_primitive\<close> is the
  type system's predicate on range type names; \<open>is_collection\<close> is not modelled, since both
  of its branches do the same.
\<close>

fun serialize_features ::
  "(string \<Rightarrow> bool) \<Rightarrow> heap \<Rightarrow> Type \<Rightarrow> pyval \<Rightarrow> Feature list \<Rightarrow> json_object \<Rightarrow> error + json_object" where
  "serialize_features is_primitive h t fs [] json_fs = Inr json_fs"
| "serialize_features is_primitive h t fs (feature # features) json_fs =
     (if f_name feature \<in> set COMMON_FIELD_NAMES
      then serialize_features is_primitive h t fs features json_fs
      else (let feature_name = (if has_reserved_name feature then butlast (f_name feature)
                                else f_name feature)
            in bind (getattr h fs (f_name feature)) (\<lambda>value.
                 if value = PNone then serialize_features is_primitive h t fs features json_fs
                 else if t_name t = TYPE_NAME_BYTE_ARRAY \<and> feature_name = ''elements''
                 then bind (b64encode value) (\<lambda>text.
                        serialize_features is_primitive h t fs features
                          (dict_set json_fs ELEMENTS_FIELD text))
                 else if supertypeName t = TYPE_NAME_ARRAY_BASE \<and> feature_name = ''elements''
                 then serialize_features is_primitive h t fs features
                        (dict_set json_fs ELEMENTS_FIELD value)
                 else if is_primitive (rangeTypeName feature)
                 then serialize_features is_primitive h t fs features
                        (dict_set json_fs feature_name value)
                 else bind (getattr h value ''xmiID'') (\<lambda>target_id.
                        serialize_features is_primitive h t fs features
                          (dict_set json_fs (REF_FEATURE_PREFIX # feature_name) target_id)))))"

definition serialize_feature_structure ::
  "(string \<Rightarrow> bool) \<Rightarrow> Cas \<Rightarrow> heap \<Rightarrow> pyval \<Rightarrow> error + json_object" where
  "serialize_feature_structure is_primitive cas h fs =
     bind (getattr h fs ''xmiID'') (\<lambda>fs_id.
     bind (getattr h fs ''type'') (\<lambda>fs_type_name.
     bind (type_of_record (typesystem cas) fs_type_name) (\<lambda>t.
       serialize_features is_primitive h t fs (all_features t)
         [(ID_FIELD, fs_id), (TYPE_FIELD, fs_type_name)])))"

text \<open>
  \<open>sorted\<close> over identifiers: integers are put in order (a stable sort); one element needs
  no comparison; otherwise a \<open>None\<close> among them makes the comparison raise \<open>TypeError\<close>.
\<close>

definition sorted_by_id :: "('a \<Rightarrow> int option) \<Rightarrow> 'a list \<Rightarrow> error + 'a list" where
  "sorted_by_id key xs =
     (if list_all (\<lambda>x. key x \<noteq> None) xs then Inr (sort_key (\<lambda>x. the (key x)) xs)
      else if length xs \<le> 1 then Inr xs
      else Inl TypeError)"

definition serialize_view :: "heap \<Rightarrow> View \<Rightarrow> error + json_object" where
  "serialize_view h view =
     bind (sorted_by_id id (map (\<lambda>a. xmiID (h_fs h a)) (get_all_annotations view))) (\<lambda>ids.
       Inr [(VIEW_SOFA_FIELD, PInt (sofa_xmiID (h_sofa h (view_sofa view)))),
            (VIEW_INDEX_FIELD, PList (map id_value ids))])"

text \<open>The property \<open>Cas.views\<close>: \<open>list(self._views.values())\<close>.\<close>

definition views :: "Cas \<Rightarrow> heap \<Rightarrow> addr list" where
  "views self h = map snd (h_views h (c_views self))"

text \<open>
  Modelled from the spec: \<open>cas._find_all_fs()\<close>, which cas.py does not define, "every feature
  structure reachable from the document, not limited to structures in some view's index":
  the indexed structures of all views and everything they refer to, found by a traversal
  that visits each address once. No more than \<open>h_next\<close> addresses are allocated, which bounds
  the number of visits.
\<close>

definition refs_of :: "FeatureStructure \<Rightarrow> addr list" where
  "refs_of fs = concat (map (\<lambda>e. case snd e of PRef a \<Rightarrow> [a] | _ \<Rightarrow> []) (feats fs))"

fun reachable :: "heap \<Rightarrow> nat \<Rightarrow> addr list \<Rightarrow> addr list \<Rightarrow> addr list" where
  "reachable h fuel [] seen = seen"
| "reachable h 0 (a # work) seen = seen"
| "reachable h (Suc fuel) (a # work) seen =
     (if a \<in> set seen then reachable h (Suc fuel) work seen
      else reachable h fuel (refs_of (h_fs h a) @ work) (seen @ [a]))"

definition find_all_fs :: "Cas \<Rightarrow> heap \<Rightarrow> addr list" where
  "find_all_fs self h =
     reachable h (h_next h)
       (concat (map (\<lambda>v. get_all_annotations (h_view h v)) (views self h))) []"

text \<open>
  \<open>serialize\<close>: the loop over the views (the view summary, then the record of the sofa), the
  loop over all feature structures in ascending identifier order, and the document \<open>data\<close>
  that is written. The JSON text in between, written by \<open>json.dump\<close> and read back by
  \<open>json.loads\<close>, carries the same data.
\<close>

fun serialize_views ::
  "(string \<Rightarrow> bool) \<Rightarrow> Cas \<Rightarrow> heap \<Rightarrow> addr list \<Rightarrow> (string \<times> json_object) list \<Rightarrow> json_object list
     \<Rightarrow> error + (string \<times> json_object) list \<times> json_object list" where
  "serialize_views is_primitive cas h [] json_views feature_structures =
     Inr (json_views, feature_structures)"
| "serialize_views is_primitive cas h (v # vs) json_views feature_structures =
     bind (serialize_view h (h_view h v)) (\<lambda>json_view.
     bind (serialize_feature_structure is_primitive cas h (PSofa (view_sofa (h_view h v)))) (\<lambda>json_sofa_fs.
       serialize_views is_primitive cas h vs
         (dict_set json_views (sofaID (h_sofa h (view_sofa (h_view h v)))) json_view)
         (feature_structures @ [json_sofa_fs])))"

fun serialize_all ::
  "(string \<Rightarrow> bool) \<Rightarrow> Cas \<Rightarrow> heap \<Rightarrow> addr list \<Rightarrow> json_object list \<Rightarrow> error + json_object list" where
  "serialize_all is_primitive cas h [] feature_structures = Inr feature_structures"
| "serialize_all is_primitive cas h (a # as) feature_structures =
     bind (serialize_feature_structure is_primitive cas h (PRef a)) (\<lambda>json_fs.
       serialize_all is_primitive cas h as (feature_structures @ [json_fs]))"

definition serialize :: "(string \<Rightarrow> bool) \<Rightarrow> Cas \<Rightarrow> heap \<Rightarrow> error + wire" where
  "serialize is_primitive cas h =
     bind (serialize_views is_primitive cas h (views cas h) [] []) (\<lambda>(json_views, sofa_records).
     bind (sorted_by_id (\<lambda>a. xmiID (h_fs h a)) (find_all_fs cas h)) (\<lambda>all_fs.
     bind (serialize_all is_primitive cas h all_fs sofa_records) (\<lambda>feature_structures.
       Inr \<lparr>FEATURE_STRUCTURES_FIELD = FsList feature_structures, VIEWS_FIELD = Some json_views\<rparr>)))"

section \<open>The empty store\<close>

text \<open>
  A store in which nothing is allocated yet; the concrete documents of the worked examples
  are built from it by the operations above.
\<close>

definition heap0 :: heap where
  "heap0 = \<lparr>h_fs = (\<lambda>_. \<lparr>fs_type = [], xmiID = None, slots = [], fs_begin = 0, fs_end = 0,
                          feats = []\<rparr>),
            h_sofa = (\<lambda>_. \<lparr>sofaNum = 0, sofa_xmiID = 0, sofaID = [], sofaString = PNone,
                            mimeType = PNone, sofaURI = PNone\<rparr>),
            h_view = (\<lambda>_. \<lparr>view_sofa = 0, indices = []\<rparr>),
            h_gen = (\<lambda>_. 0), h_views = (\<lambda>_. []), h_sofas = (\<lambda>_. []), h_attrs = (\<lambda>_. []),
            h_next = 0\<rparr>"

text \<open>
  Two stores hold the same objects at every address that is allocated in the first.
\<close>

definition same_objects :: "heap \<Rightarrow> heap \<Rightarrow> bool" where
  "same_objects h h' =
     (\<forall>a<h_next h. h_fs h' a = h_fs h a \<and> h_sofa h' a = h_sofa h a \<and> h_view h' a = h_view h a
        \<and> h_gen h' a = h_gen h a \<and> h_views h' a = h_views h a \<and> h_sofas h' a = h_sofas h a
        \<and> h_attrs h' a = h_attrs h a)"

section \<open>Predicates of the statements\<close>

text \<open>A structure is positional when its class has both slots, as \<open>_sort_func\<close> tests it.\<close>

definition positional :: "FeatureStructure \<Rightarrow> bool" where
  "positional a = (''begin'' \<in> set (slots a) \<and> ''end'' \<in> set (slots a))"

text \<open>
  The state of a view's index between operations: every bucket is in key order, and the
  key stored with an entry is the key of the structure as it is now.
\<close>

definition index_ok :: "heap \<Rightarrow> addr \<Rightarrow> bool" where
  "index_ok h v =
     (\<forall>n. sorted (map fst (type_index (h_view h v) n))
        \<and> (\<forall>e\<in>set (type_index (h_view h v) n). fst e = sort_func (h_fs h (snd e))))"

section \<open>Documents for the worked examples\<close>

text \<open>
  A positional structure of a given type and span, a structure without \<open>begin\<close> and \<open>end\<close>,
  a store that holds a list of structures at the addresses 0, 1, ..., and a new \<open>Cas\<close>
  created in such a store.
\<close>

definition annotation :: "string \<Rightarrow> int \<Rightarrow> int \<Rightarrow> FeatureStructure" where
  "annotation t b e = \<lparr>fs_type = t, xmiID = None, slots = [''xmiID'', ''type'', ''sofa'', ''begin'', ''end''],
     fs_begin = b, fs_end = e, feats = []\<rparr>"

definition plain_fs :: "string \<Rightarrow> FeatureStructure" where
  "plain_fs t = \<lparr>fs_type = t, xmiID = None, slots = [''xmiID'', ''type''],
     fs_begin = 0, fs_end = 0, feats = []\<rparr>"

definition store_of :: "FeatureStructure list \<Rightarrow> heap" where
  "store_of fss = heap0\<lparr>h_fs := (\<lambda>a. if a < length fss then fss ! a else h_fs heap0 a),
                         h_next := length fss\<rparr>"

definition new_document :: "TypeSystem \<Rightarrow> FeatureStructure list \<Rightarrow> Cas \<times> heap" where
  "new_document ts fss = Cas_init ts (store_of fss)"

text \<open>
  A type system given as a table from type names to the names of their children, and a
  document whose initial view holds every structure of the store, added in address order.
\<close>

definition types_of :: "(string \<times> string list) list \<Rightarrow> TypeSystem" where
  "types_of tab n =
     map_option (\<lambda>cs. \<lparr>t_name = n, supertypeName = ''uima.cas.TOP'', children = cs,
                        all_features = [], t_slots = []\<rparr>) (map_of tab n)"

definition document :: "TypeSystem \<Rightarrow> FeatureStructure list \<Rightarrow> Cas \<times> heap" where
  "document ts fss =
     (let doc = new_document ts fss
      in (fst doc, add_annotations (fst doc) [0..<length fss] (snd doc)))"

text \<open>A type system given as the list of its types.\<close>

definition type_table :: "Type list \<Rightarrow> TypeSystem" where
  "type_table ts n = find (\<lambda>t. t_name t = n) ts"

text \<open>
  A type \<open>T\<close> with two reference features; a wire input in which the first record refers
  to the two records after it and the second refers back to the first; and a wire input
  that holds only the \<open>Sofa\<close> record of the initial view, with identifier 5 and sofa number 3.
\<close>

definition links_types :: TypeSystem where
  "links_types = type_table
     [\<lparr>t_name = ''T'', supertypeName = ''uima.cas.TOP'', children = [],
       all_features = [\<lparr>f_name = ''next'', rangeTypeName = ''T'', has_reserved_name = False\<rparr>,
                       \<lparr>f_name = ''other'', rangeTypeName = ''T'', has_reserved_name = False\<rparr>],
       t_slots = [''xmiID'', ''type'', ''next'', ''other'', ''self_'']\<rparr>]"

definition forward_reference_wire :: wire where
  "forward_reference_wire = \<lparr>FEATURE_STRUCTURES_FIELD = FsList
       [[(''%ID'', PInt 1), (''%TYPE'', PStr ''T''), (''@next'', PInt 2), (''@other'', PInt 3)],
        [(''%ID'', PInt 2), (''%TYPE'', PStr ''T''), (''@next'', PInt 1)],
        [(''%ID'', PInt 3), (''%TYPE'', PStr ''T'')]],
     VIEWS_FIELD = Some [(''_InitialView'', [(''%SOFA'', PInt 4), (''%INDEX'', PList [PInt 1, PInt 2, PInt 3])])]\<rparr>"

definition sofa_record_wire :: wire where
  "sofa_record_wire = \<lparr>FEATURE_STRUCTURES_FIELD = FsList
       [[(''%ID'', PInt 5), (''%TYPE'', PStr ''uima.cas.Sofa''), (''sofaID'', PStr ''_InitialView''),
         (''sofaNum'', PInt 3)]],
     VIEWS_FIELD = Some []\<rparr>"

text \<open>
  For the round trip: UIMA's primitive range types; a type system with the type \<open>T\<close> (one
  reference feature \<open>next\<close>) and the sofa type; a structure of type \<open>T\<close> with a given \<open>next\<close>; the
  document whose initial view holds two such structures, the first referring to the second;
  and a document with a second view \<open>X\<close> and no structures.
\<close>

definition uima_primitive :: "string \<Rightarrow> bool" where
  "uima_primitive n = (n \<in> set [''uima.cas.Boolean'', ''uima.cas.Byte'', ''uima.cas.Short'',
     ''uima.cas.Integer'', ''uima.cas.Long'', ''uima.cas.Float'', ''uima.cas.Double'',
     ''uima.cas.String''])"

definition doc_types :: TypeSystem where
  "doc_types = type_table
     [\<lparr>t_name = ''T'', supertypeName = ''uima.cas.TOP'', children = [],
       all_features = [\<lparr>f_name = ''next'', rangeTypeName = ''T'', has_reserved_name = False\<rparr>],
       t_slots = [''xmiID'', ''type'', ''next'']\<rparr>,
      \<lparr>t_name = ''uima.cas.Sofa'', supertypeName = ''uima.cas.TOP'', children = [],
       all_features =
         [\<lparr>f_name = ''sofaNum'', rangeTypeName = ''uima.cas.Integer'', has_reserved_name = False\<rparr>,
          \<lparr>f_name = ''sofaID'', rangeTypeName = ''uima.cas.String'', has_reserved_name = False\<rparr>,
          \<lparr>f_name = ''mimeType'', rangeTypeName = ''uima.cas.String'', has_reserved_name = False\<rparr>,
          \<lparr>f_name = ''sofaArray'', rangeTypeName = ''uima.cas.TOP'', has_reserved_name = False\<rparr>,
          \<lparr>f_name = ''sofaString'', rangeTypeName = ''uima.cas.String'', has_reserved_name = False\<rparr>,
          \<lparr>f_name = ''sofaURI'', rangeTypeName = ''uima.cas.String'', has_reserved_name = False\<rparr>],
       t_slots = []\<rparr>]"

definition link :: "string \<Rightarrow> pyval \<Rightarrow> FeatureStructure" where
  "link t target = \<lparr>fs_type = t, xmiID = None, slots = [''xmiID'', ''type'', ''next''],
     fs_begin = 0, fs_end = 0, feats = (if target = PNone then [] else [(''next'', target)])\<rparr>"

definition linked_document :: "Cas \<times> heap" where
  "linked_document = document doc_types [link ''T'' (PRef 1), link ''T'' PNone]"


definition two_view_document :: "Cas \<times> heap" where
  "two_view_document =
     (let doc = new_document doc_types [] in (fst doc, snd (create_view (fst doc) ''X'' (snd doc))))"

(*DEFINITIONS-END*)

section \<open>Dictionaries and construction\<close>

lemma map_of_dict_set: "map_of (dict_set d k v) k' = (if k' = k then Some v else map_of d k')"
  by (induction d) auto

lemma dict_has_map_of: "dict_has d k = (map_of d k \<noteq> None)"
  by (induction d) (auto simp: dict_has_def)

lemma dict_has_dict_set: "dict_has (dict_set d k v) k' = (k' = k \<or> dict_has d k')"
  by (simp add: dict_has_map_of map_of_dict_set)

text \<open>
  What \<open>Cas.__init__\<close> leaves behind: six new objects at the next six addresses, and
  nothing else touched.
\<close>

lemma Cas_init_eq:
  "Cas_init ts h =
    (\<lparr>typesystem = ts, c_sofas = h_next h, c_views = h_next h + 1, xmi_id_generator = h_next h + 2,
      sofa_num_generator = h_next h + 3, current_view = h_next h + 5\<rparr>,
     h\<lparr>h_sofa := (h_sofa h)(h_next h + 4 := \<lparr>sofaNum = 1, sofa_xmiID = 1, sofaID = ''_InitialView'',
                    sofaString = PNone, mimeType = PNone, sofaURI = PNone\<rparr>),
       h_view := (h_view h)(h_next h + 5 := \<lparr>view_sofa = h_next h + 4, indices = []\<rparr>),
       h_gen := (h_gen h)(h_next h + 2 := 2, h_next h + 3 := 2),
       h_views := (h_views h)(h_next h + 1 := [(''_InitialView'', h_next h + 5)]),
       h_sofas := (h_sofas h)(h_next h := [(''_InitialView'', h_next h + 4)]),
       h_next := h_next h + 6\<rparr>)"
  by (simp add: Cas_init_def alloc_def IdGenerator_def add_view_def get_next_xmi_id_def
      get_next_sofa_num_def generate_id_def Let_def eval_nat_numeral)

section \<open>Views: lookup, creation and their failures\<close>

lemma get_view_registered:
  "map_of (h_views h (c_views cas)) name = Some v \<Longrightarrow>
     get_view cas name h = (Inr (cas\<lparr>current_view := v\<rparr>), snd (Cas_init (typesystem cas) h))"
  by (simp add: get_view_def copy_def Cas_init_eq)

lemma get_view_unregistered:
  "map_of (h_views h (c_views cas)) name = None \<Longrightarrow> get_view cas name h = (Inl KeyError, h)"
  by (simp add: get_view_def)

lemma add_view_views:
  "map_of (h_views (add_view cas name h) (c_views cas)) name = Some (Suc (h_next h))"
  by (simp add: add_view_def alloc_def get_next_xmi_id_def get_next_sofa_num_def generate_id_def
      Let_def map_of_dict_set)

text \<open>
  Claim C8. \<open>create_view(name)\<close> raises the duplicate-view error (\<open>ValueError\<close>) exactly when
  \<open>name\<close> is a key of the view mapping, and \<open>get_view(name)\<close> raises the view-not-found error
  (\<open>KeyError\<close>) exactly when it is not; each succeeds in the other case. A failing call
  returns the store it was given: the view mapping, the sofa mapping, both generators and
  every view are unchanged, and the handle, which holds the current view, is not written.
\<close>

theorem view_errors:
  "(dict_has (h_views h (c_views cas)) name \<longrightarrow>
      create_view cas name h = (Inl ValueError, h)
      \<and> (\<exists>view h'. get_view cas name h = (Inr view, h'))) \<and>
   (\<not> dict_has (h_views h (c_views cas)) name \<longrightarrow>
      get_view cas name h = (Inl KeyError, h)
      \<and> (\<exists>view h'. create_view cas name h = (Inr view, h')))"
proof (cases "dict_has (h_views h (c_views cas)) name")
  case True
  then obtain v where "map_of (h_views h (c_views cas)) name = Some v"
    by (auto simp: dict_has_map_of)
  then have "\<exists>view h'. get_view cas name h = (Inr view, h')"
    by (simp add: get_view_registered)
  with True show ?thesis
    by (simp add: create_view_def)
next
  case False
  then have none: "map_of (h_views h (c_views cas)) name = None"
    by (simp add: dict_has_map_of)
  have "\<exists>view h'. get_view cas name (add_view cas name h) = (Inr view, h')"
    using get_view_registered [OF add_view_views] by blast
  with False none show ?thesis
    by (simp add: create_view_def get_view_unregistered)
qed

text \<open>
  The theorem at a new document: \<open>_InitialView\<close> is registered, \<open>A\<close> is not.
\<close>

theorem view_errors_witness:
  "(let cas = fst (Cas_init (\<lambda>_. None) heap0); h = snd (Cas_init (\<lambda>_. None) heap0) in
     dict_has (h_views h (c_views cas)) ''_InitialView''
     \<and> create_view cas ''_InitialView'' h = (Inl ValueError, h)
     \<and> (\<exists>view h'. get_view cas ''_InitialView'' h = (Inr view, h'))
     \<and> \<not> dict_has (h_views h (c_views cas)) ''A''
     \<and> get_view cas ''A'' h = (Inl KeyError, h)
     \<and> (\<exists>view h'. create_view cas ''A'' h = (Inr view, h')))"
  using view_errors [of "snd (Cas_init (\<lambda>_. None) heap0)" "fst (Cas_init (\<lambda>_. None) heap0)" "''_InitialView''"]
    view_errors [of "snd (Cas_init (\<lambda>_. None) heap0)" "fst (Cas_init (\<lambda>_. None) heap0)" "''A''"]
  by (simp add: Cas_init_eq heap0_def dict_has_def Let_def)

section \<open>View handles share the document\<close>

lemma Cas_init_same_objects: "same_objects h (snd (Cas_init ts h))"
  by (simp add: same_objects_def Cas_init_eq)

lemma in_skl_add: "(k, a) \<in> set (skl_add l k a)"
  by (simp add: skl_add_def Let_def)

lemma dict_set_mem: "(k, v) \<in> set (dict_set d k v)"
  by (induction d) auto

lemma add_annotation_to_index_mem:
  "a \<in> set (get_all_annotations (h_view (add_annotation_to_index v a h) v))"
proof -
  let ?fs = "h_fs h a"
  let ?b = "skl_add (type_index (h_view h v) (fs_type ?fs)) (sort_func ?fs) a"
  have "(fs_type ?fs, ?b) \<in> set (indices (h_view (add_annotation_to_index v a h) v))"
    by (simp add: add_annotation_to_index_def Let_def dict_set_mem)
  moreover have "a \<in> set (map snd ?b)"
    using in_skl_add [of "sort_func ?fs" a] by force
  ultimately show ?thesis
    unfolding get_all_annotations_def by force
qed

lemma add_annotation_to_index_frame:
  "h_views (add_annotation_to_index v a h) = h_views h"
  "h_gen (add_annotation_to_index v a h) = h_gen h"
  "h_sofas (add_annotation_to_index v a h) = h_sofas h"
  "h_fs (add_annotation_to_index v a h) = h_fs h"
  by (simp_all add: add_annotation_to_index_def Let_def)

lemma add_annotation_mem:
  "a \<in> set (get_all_annotations (h_view (add_annotation c a h) (current_view c)))"
  by (simp add: add_annotation_def Let_def split_def add_annotation_to_index_mem)

lemma add_annotation_views: "h_views (add_annotation c a h) = h_views h"
  by (simp add: add_annotation_def Let_def split_def add_annotation_to_index_frame
      get_next_xmi_id_def generate_id_def)



lemma add_view_next: "h_next (add_view c Y h) = Suc (Suc (h_next h))"
  by (simp add: add_view_def alloc_def get_next_xmi_id_def get_next_sofa_num_def
      generate_id_def Let_def)

lemma create_view_fresh:
  assumes "\<not> dict_has (h_views h (c_views c)) Y" and "c_views c < h_next h"
  shows "\<exists>view h'. create_view c Y h = (Inr view, h') \<and> dict_has (h_views h' (c_views c)) Y"
proof -
  let ?h1 = "add_view c Y h"
  have reg: "map_of (h_views ?h1 (c_views c)) Y = Some (Suc (h_next h))"
    by (rule add_view_views)
  have "dict_has (h_views (snd (Cas_init (typesystem c) ?h1)) (c_views c)) Y"
    using reg assms(2) by (simp add: Cas_init_eq dict_has_map_of add_view_next)
  then show ?thesis
    using assms(1) get_view_registered [OF reg] by (simp add: create_view_def)
qed

lemma get_view_dict_has:
  "dict_has (h_views h (c_views c)) Y \<Longrightarrow> \<exists>view h'. get_view c Y h = (Inr view, h')"
  by (auto simp: dict_has_map_of get_view_registered)

text \<open>
  Claim C6. For a registered name \<open>X\<close>, \<open>get_view(X)\<close> returns a handle that is the original
  with only \<open>current_view\<close> replaced by the view registered under \<open>X\<close>: it holds the same view
  mapping, the same sofa mapping, the same two generators and the same type system. The
  call itself changes no object that existed before (the objects of the throw-away \<open>Cas\<close>
  that \<open>_copy\<close> builds are new). Mutations through either handle are seen through the other:
  an annotation added through one handle is in the index of the view that the other handle
  finds in the shared view mapping, a view created through one can be looked up through
  the other, and an identifier or sofa number taken through one is not issued again
  through the other. The handle's own objects are assumed to be allocated.
\<close>

theorem get_view_shares_state:
  assumes reg: "map_of (h_views h (c_views cas)) X = Some v"
    and allocated: "c_views cas < h_next h" "c_sofas cas < h_next h"
      "xmi_id_generator cas < h_next h" "sofa_num_generator cas < h_next h"
  shows "\<exists>view h1. get_view cas X h = (Inr view, h1)
     \<and> view = cas\<lparr>current_view := v\<rparr>
     \<and> same_objects h h1
     \<and> h_views h1 (c_views view) = h_views h (c_views cas)
     \<and> h_sofas h1 (c_sofas view) = h_sofas h (c_sofas cas)
     \<and> (\<forall>a. map_of (h_views (add_annotation view a h1) (c_views cas)) X = Some v
             \<and> a \<in> set (get_all_annotations (h_view (add_annotation view a h1) v)))
     \<and> (\<forall>a. h_views (add_annotation cas a h1) (c_views view) = h_views h (c_views cas)
             \<and> a \<in> set (get_all_annotations (h_view (add_annotation cas a h1) (current_view cas))))
     \<and> (\<forall>Y. \<not> dict_has (h_views h (c_views cas)) Y \<longrightarrow>
            (\<exists>view2 h2. create_view view Y h1 = (Inr view2, h2)
                \<and> (\<exists>view3 h3. get_view cas Y h2 = (Inr view3, h3)))
          \<and> (\<exists>view2 h2. create_view cas Y h1 = (Inr view2, h2)
                \<and> (\<exists>view3 h3. get_view view Y h2 = (Inr view3, h3))))
     \<and> fst (get_next_xmi_id view h1) = h_gen h (xmi_id_generator cas)
     \<and> fst (get_next_xmi_id cas (snd (get_next_xmi_id view h1))) = h_gen h (xmi_id_generator cas) + 1
     \<and> fst (get_next_xmi_id view (snd (get_next_xmi_id cas h1))) = h_gen h (xmi_id_generator cas) + 1
     \<and> fst (get_next_sofa_num view h1) = h_gen h (sofa_num_generator cas)
     \<and> fst (get_next_sofa_num cas (snd (get_next_sofa_num view h1))) = h_gen h (sofa_num_generator cas) + 1
     \<and> fst (get_next_sofa_num view (snd (get_next_sofa_num cas h1))) = h_gen h (sofa_num_generator cas) + 1"
proof -
  define view where "view = cas\<lparr>current_view := v\<rparr>"
  define h1 where "h1 = snd (Cas_init (typesystem cas) h)"
  have gv: "get_view cas X h = (Inr view, h1)"
    using reg by (simp add: get_view_registered view_def h1_def)
  have same: "same_objects h h1"
    unfolding h1_def by (rule Cas_init_same_objects)
  have views: "h_views h1 (c_views cas) = h_views h (c_views cas)"
    using same allocated(1) by (simp add: same_objects_def)
  have sofas: "h_sofas h1 (c_sofas cas) = h_sofas h (c_sofas cas)"
    using same allocated(2) by (simp add: same_objects_def)
  have xgen: "h_gen h1 (xmi_id_generator cas) = h_gen h (xmi_id_generator cas)"
    using same allocated(3) by (simp add: same_objects_def)
  have sgen: "h_gen h1 (sofa_num_generator cas) = h_gen h (sofa_num_generator cas)"
    using same allocated(4) by (simp add: same_objects_def)
  have next1: "h_next h1 = h_next h + 6"
    by (simp add: h1_def Cas_init_eq)
  have o1: "map_of (h_views (add_annotation view a h1) (c_views cas)) X = Some v
      \<and> a \<in> set (get_all_annotations (h_view (add_annotation view a h1) v))" for a
    using add_annotation_mem [of a view h1] reg views
    by (simp add: add_annotation_views view_def)
  have o2: "h_views (add_annotation cas a h1) (c_views view) = h_views h (c_views cas)
      \<and> a \<in> set (get_all_annotations (h_view (add_annotation cas a h1) (current_view cas)))" for a
    using add_annotation_mem [of a cas h1] views
    by (simp add: add_annotation_views view_def)
  have o3: "(\<exists>view2 h2. create_view view Y h1 = (Inr view2, h2)
                \<and> (\<exists>view3 h3. get_view cas Y h2 = (Inr view3, h3)))
          \<and> (\<exists>view2 h2. create_view cas Y h1 = (Inr view2, h2)
                \<and> (\<exists>view3 h3. get_view view Y h2 = (Inr view3, h3)))"
    if fresh: "\<not> dict_has (h_views h (c_views cas)) Y" for Y
  proof -
    have f1: "\<not> dict_has (h_views h1 (c_views view)) Y" "\<not> dict_has (h_views h1 (c_views cas)) Y"
      using fresh views by (simp_all add: view_def)
    have a1: "c_views view < h_next h1" "c_views cas < h_next h1"
      using allocated(1) next1 by (simp_all add: view_def)
    obtain view2 h2 where c1: "create_view view Y h1 = (Inr view2, h2)"
      and d1: "dict_has (h_views h2 (c_views view)) Y"
      using create_view_fresh [OF f1(1) a1(1)] by blast
    have "dict_has (h_views h2 (c_views cas)) Y"
      using d1 by (simp add: view_def)
    then have g1: "\<exists>view3 h3. get_view cas Y h2 = (Inr view3, h3)"
      by (rule get_view_dict_has)
    obtain view2' h2' where c2: "create_view cas Y h1 = (Inr view2', h2')"
      and d2: "dict_has (h_views h2' (c_views cas)) Y"
      using create_view_fresh [OF f1(2) a1(2)] by blast
    have "dict_has (h_views h2' (c_views view)) Y"
      using d2 by (simp add: view_def)
    then have g2: "\<exists>view3 h3. get_view view Y h2' = (Inr view3, h3)"
      by (rule get_view_dict_has)
    show ?thesis
      using c1 g1 c2 g2 by simp
  qed
  have ids: "fst (get_next_xmi_id view h1) = h_gen h (xmi_id_generator cas)"
    "fst (get_next_xmi_id cas (snd (get_next_xmi_id view h1))) = h_gen h (xmi_id_generator cas) + 1"
    "fst (get_next_xmi_id view (snd (get_next_xmi_id cas h1))) = h_gen h (xmi_id_generator cas) + 1"
    using xgen by (simp_all add: get_next_xmi_id_def generate_id_def view_def)
  have nums: "fst (get_next_sofa_num view h1) = h_gen h (sofa_num_generator cas)"
    "fst (get_next_sofa_num cas (snd (get_next_sofa_num view h1))) = h_gen h (sofa_num_generator cas) + 1"
    "fst (get_next_sofa_num view (snd (get_next_sofa_num cas h1))) = h_gen h (sofa_num_generator cas) + 1"
    using sgen by (simp_all add: get_next_sofa_num_def generate_id_def view_def)
  have v1: "h_views h1 (c_views view) = h_views h (c_views cas)"
    using views by (simp add: view_def)
  have s1: "h_sofas h1 (c_sofas view) = h_sofas h (c_sofas cas)"
    using sofas by (simp add: view_def)
  have vdef: "view = cas\<lparr>current_view := v\<rparr>"
    by (rule view_def)
  show ?thesis
    using gv vdef same v1 s1 o1 o2 o3 ids nums by blast
qed


text \<open>
  The theorem at a document with a second view \<open>X\<close> (its view object is at address 7), seen
  from the handle of the initial view.
\<close>

theorem get_view_shares_state_witness:
  "(let cas = fst (Cas_init (\<lambda>_. None) heap0);
        h = snd (create_view cas ''X'' (snd (Cas_init (\<lambda>_. None) heap0)))
    in map_of (h_views h (c_views cas)) ''X'' = Some 7
     \<and> c_views cas < h_next h \<and> c_sofas cas < h_next h
     \<and> xmi_id_generator cas < h_next h \<and> sofa_num_generator cas < h_next h
     \<and> (\<exists>h1. get_view cas ''X'' h = (Inr (cas\<lparr>current_view := 7\<rparr>), h1)
           \<and> same_objects h h1
           \<and> fst (get_next_xmi_id (cas\<lparr>current_view := 7\<rparr>) h1) = 3
           \<and> fst (get_next_xmi_id cas (snd (get_next_xmi_id (cas\<lparr>current_view := 7\<rparr>) h1))) = 4))"
  using get_view_shares_state [of "snd (create_view (fst (Cas_init (\<lambda>_. None) heap0)) ''X'' (snd (Cas_init (\<lambda>_. None) heap0)))"
      "fst (Cas_init (\<lambda>_. None) heap0)" "''X''" 7]
  by (simp add: Cas_init_eq create_view_def dict_has_def add_view_def alloc_def get_view_def copy_def
      get_next_xmi_id_def get_next_sofa_num_def generate_id_def Let_def heap0_def)

section \<open>The order of an index bucket\<close>

lemma skl_add_Nil: "skl_add [] k v = [(k, v)]"
  by (simp add: skl_add_def bisect_key_right_def)

lemma skl_add_Cons:
  "skl_add (e # l) k v = (if fst e \<le> k then e # skl_add l k v else (k, v) # e # l)"
  by (simp add: skl_add_def bisect_key_right_def Let_def)

lemma set_skl_add: "set (skl_add l k v) = insert (k, v) (set l)"
  by (induction l) (auto simp: skl_add_Nil skl_add_Cons)

lemma sorted_skl_add: "sorted (map fst l) \<Longrightarrow> sorted (map fst (skl_add l k v))"
proof (induction l)
  case Nil
  then show ?case by (simp add: skl_add_Nil)
next
  case (Cons e l)
  show ?case
  proof (cases "fst e \<le> k")
    case True
    with Cons show ?thesis
      by (auto simp: skl_add_Cons set_skl_add)
  next
    case False
    with Cons.prems show ?thesis
      by (auto simp: skl_add_Cons)
  qed
qed

lemma filter_key_skl_add:
  "sorted (map fst l) \<Longrightarrow>
     filter (\<lambda>e. fst e = k') (skl_add l k v) =
       filter (\<lambda>e. fst e = k') l @ (if k' = k then [(k, v)] else [])"
proof (induction l)
  case Nil
  then show ?case by (simp add: skl_add_Nil)
next
  case (Cons e l)
  show ?case
  proof (cases "fst e \<le> k")
    case True
    with Cons show ?thesis
      by (simp add: skl_add_Cons)
  next
    case False
    then have "k < fst e" by simp
    with Cons.prems have "\<forall>x\<in>set (e # l). k < fst x"
      by auto
    then have "filter (\<lambda>e. fst e = k) (e # l) = []"
      by (auto simp: filter_empty_conv)
    with False show ?thesis
      by (auto simp: skl_add_Cons)
  qed
qed

lemma type_index_dict_set:
  "type_index (view\<lparr>indices := dict_set (indices view) t b\<rparr>) n =
     (if n = t then b else type_index view n)"
  by (simp add: type_index_def map_of_dict_set)

lemma type_index_add_annotation_to_index:
  "type_index (h_view (add_annotation_to_index v a h) v) n =
     (if n = fs_type (h_fs h a)
      then skl_add (type_index (h_view h v) n) (sort_func (h_fs h a)) a
      else type_index (h_view h v) n)"
  by (simp add: add_annotation_to_index_def Let_def type_index_dict_set)

lemma add_annotation_fs:
  "fs_type (h_fs (add_annotation c a h) b) = fs_type (h_fs h b)"
  "slots (h_fs (add_annotation c a h) b) = slots (h_fs h b)"
  "fs_begin (h_fs (add_annotation c a h) b) = fs_begin (h_fs h b)"
  "fs_end (h_fs (add_annotation c a h) b) = fs_end (h_fs h b)"
  by (simp_all add: add_annotation_def Let_def split_def add_annotation_to_index_frame
      get_next_xmi_id_def generate_id_def)

lemma add_annotation_sort_func:
  "sort_func (h_fs (add_annotation c a h) b) = sort_func (h_fs h b)"
  "positional (h_fs (add_annotation c a h) b) = positional (h_fs h b)"
  by (simp_all add: sort_func_def positional_def add_annotation_fs)

lemma type_index_add_annotation:
  "type_index (h_view (add_annotation c a h) (current_view c)) n =
     (if n = fs_type (h_fs h a)
      then skl_add (type_index (h_view h (current_view c)) n) (sort_func (h_fs h a)) a
      else type_index (h_view h (current_view c)) n)"
  by (simp add: add_annotation_def Let_def split_def type_index_add_annotation_to_index
      get_next_xmi_id_def generate_id_def sort_func_def add_annotation_to_index_def
      type_index_def map_of_dict_set)


lemma index_ok_add_annotation:
  assumes "index_ok h (current_view c)"
  shows "index_ok (add_annotation c a h) (current_view c)"
  unfolding index_ok_def
proof (intro allI conjI)
  fix n
  show "sorted (map fst (type_index (h_view (add_annotation c a h) (current_view c)) n))"
    using assms by (simp add: index_ok_def type_index_add_annotation sorted_skl_add)
  show "\<forall>e\<in>set (type_index (h_view (add_annotation c a h) (current_view c)) n).
          fst e = sort_func (h_fs (add_annotation c a h) (snd e))"
    using assms
    by (auto simp: index_ok_def type_index_add_annotation set_skl_add add_annotation_sort_func)
qed

lemma add_annotations_fs:
  "fs_type (h_fs (add_annotations c as h) b) = fs_type (h_fs h b)"
  "sort_func (h_fs (add_annotations c as h) b) = sort_func (h_fs h b)"
  "positional (h_fs (add_annotations c as h) b) = positional (h_fs h b)"
  by (induction as arbitrary: h) (simp_all add: add_annotation_fs add_annotation_sort_func)

lemma index_ok_add_annotations:
  "index_ok h (current_view c) \<Longrightarrow> index_ok (add_annotations c as h) (current_view c)"
  by (induction as arbitrary: h) (simp_all add: index_ok_add_annotation)

lemma filter_key_add_annotations:
  "index_ok h (current_view c) \<Longrightarrow>
     filter (\<lambda>e. fst e = k) (type_index (h_view (add_annotations c as h) (current_view c)) n) =
       filter (\<lambda>e. fst e = k) (type_index (h_view h (current_view c)) n)
       @ map (\<lambda>a. (k, a)) (filter (\<lambda>a. fs_type (h_fs h a) = n \<and> sort_func (h_fs h a) = k) as)"
proof (induction as arbitrary: h)
  case Nil
  then show ?case by simp
next
  case (Cons a as)
  have ok: "index_ok (add_annotation c a h) (current_view c)"
    using Cons.prems by (rule index_ok_add_annotation)
  have sorted: "sorted (map fst (type_index (h_view h (current_view c)) n))"
    using Cons.prems by (simp add: index_ok_def)
  show ?case
    using Cons.IH [OF ok] sorted
    by (auto simp: type_index_add_annotation filter_key_skl_add add_annotation_fs
        add_annotation_sort_func)
qed

text \<open>
  Claim C5, as amended. Start from a view whose buckets are in key order (a new view is) and
  add any sequence of structures through \<open>add_annotations\<close>. Then in every type bucket of
  that view: adjacent entries \<open>a\<close>, \<open>b\<close> satisfy \<open>key a \<le> key b\<close>, where \<open>key\<close> is \<open>_sort_func\<close>,
  that is \<open>(begin, end)\<close> for a positional structure and \<open>(sys.maxsize, sys.maxsize)\<close>
  otherwise; every positional entry whose key is below that sentinel stands before every
  entry that is not positional; and for each key the entries with that key are the earlier
  ones followed by the added ones, in the order in which they were added.
\<close>

theorem index_order:
  assumes ok: "index_ok h (current_view cas)"
  shows "let h' = add_annotations cas as h;
             bucket = type_index (h_view h' (current_view cas)) n;
             key = (\<lambda>e. sort_func (h_fs h' (snd e)))
         in (\<forall>i. Suc i < length bucket \<longrightarrow> key (bucket ! i) \<le> key (bucket ! Suc i))
          \<and> (\<forall>i j. i < length bucket \<and> j < length bucket
                \<and> positional (h_fs h' (snd (bucket ! i))) \<and> key (bucket ! i) < (maxsize, maxsize)
                \<and> \<not> positional (h_fs h' (snd (bucket ! j))) \<longrightarrow> i < j)
          \<and> (\<forall>k. map snd (filter (\<lambda>e. key e = k) bucket) =
                 map snd (filter (\<lambda>e. key e = k) (type_index (h_view h (current_view cas)) n))
                 @ filter (\<lambda>a. fs_type (h_fs h a) = n \<and> sort_func (h_fs h a) = k) as)"
proof -
  let ?h' = "add_annotations cas as h"
  let ?bucket = "type_index (h_view ?h' (current_view cas)) n"
  let ?old = "type_index (h_view h (current_view cas)) n"
  let ?key = "\<lambda>e :: key \<times> addr. sort_func (h_fs ?h' (snd e))"
  have ok': "index_ok ?h' (current_view cas)"
    using ok by (rule index_ok_add_annotations)
  have srt: "sorted (map fst ?bucket)"
    using ok' by (simp add: index_ok_def)
  have keys: "?key e = fst e" if "e \<in> set ?bucket" for e
    using ok' that by (simp add: index_ok_def)
  have old_keys: "?key e = fst e" if "e \<in> set ?old" for e
    using ok that by (simp add: index_ok_def add_annotations_fs)
  have mono: "?key (?bucket ! i) \<le> ?key (?bucket ! j)" if "i \<le> j" "j < length ?bucket" for i j
  proof -
    have "map fst ?bucket ! i \<le> map fst ?bucket ! j"
      using srt that by (simp add: sorted_iff_nth_mono)
    then show ?thesis
      using that keys [of "?bucket ! i"] keys [of "?bucket ! j"] by simp
  qed
  have adjacent: "?key (?bucket ! i) \<le> ?key (?bucket ! Suc i)" if "Suc i < length ?bucket" for i
    using mono [of i "Suc i"] that by simp
  have last: "i < j" if "i < length ?bucket" "j < length ?bucket"
    "?key (?bucket ! i) < (maxsize, maxsize)" "\<not> positional (h_fs ?h' (snd (?bucket ! j)))" for i j
  proof (rule ccontr)
    assume "\<not> i < j"
    then have "?key (?bucket ! j) \<le> ?key (?bucket ! i)"
      using mono [of j i] that(1) by simp
    moreover have "?key (?bucket ! j) = (maxsize, maxsize)"
      using that(4) by (auto simp: sort_func_def positional_def)
    ultimately show False
      using that(3) by simp
  qed
  have stable: "map snd (filter (\<lambda>e. ?key e = k) ?bucket) =
      map snd (filter (\<lambda>e. ?key e = k) ?old)
      @ filter (\<lambda>a. fs_type (h_fs h a) = n \<and> sort_func (h_fs h a) = k) as" for k
  proof -
    have "filter (\<lambda>e. ?key e = k) ?bucket = filter (\<lambda>e. fst e = k) ?bucket"
      by (rule filter_cong) (simp_all add: keys)
    moreover have "filter (\<lambda>e. ?key e = k) ?old = filter (\<lambda>e. fst e = k) ?old"
      by (rule filter_cong) (simp_all add: old_keys)
    ultimately show ?thesis
      using filter_key_add_annotations [OF ok, of k as n]
      by (simp add: comp_def)
  qed
  show ?thesis
    unfolding Let_def
  proof (intro conjI allI impI)
    fix i
    assume "Suc i < length ?bucket"
    then show "?key (?bucket ! i) \<le> ?key (?bucket ! Suc i)"
      by (rule adjacent)
  next
    fix i j
    assume "i < length ?bucket \<and> j < length ?bucket
                \<and> positional (h_fs ?h' (snd (?bucket ! i))) \<and> ?key (?bucket ! i) < (maxsize, maxsize)
                \<and> \<not> positional (h_fs ?h' (snd (?bucket ! j)))"
    then show "i < j"
      using last [of i j] by blast
  next
    fix k
    show "map snd (filter (\<lambda>e. ?key e = k) ?bucket) =
      map snd (filter (\<lambda>e. ?key e = k) ?old)
      @ filter (\<lambda>a. fs_type (h_fs h a) = n \<and> sort_func (h_fs h a) = k) as"
      by (rule stable)
  qed
qed


lemma new_document_fs: "h_fs (snd (new_document ts fss)) = h_fs (store_of fss)"
  by (simp add: new_document_def Cas_init_eq)

lemma new_document_index:
  "type_index (h_view (snd (new_document ts fss)) (current_view (fst (new_document ts fss)))) n = []"
  by (simp add: new_document_def Cas_init_eq type_index_def)

lemma store_of_fs: "a < length fss \<Longrightarrow> h_fs (store_of fss) a = fss ! a"
  by (simp add: store_of_def)

lemma index_ok_new_document:
  "index_ok (snd (new_document ts fss)) (current_view (fst (new_document ts fss)))"
  by (simp add: index_ok_def new_document_index)

lemma sort_func_annotation [simp]: "sort_func (annotation t b e) = (b, e)"
  "positional (annotation t b e)" "fs_type (annotation t b e) = t"
  by (simp_all add: sort_func_def annotation_def positional_def)

lemma sort_func_plain_fs [simp]: "sort_func (plain_fs t) = (maxsize, maxsize)"
  "\<not> positional (plain_fs t)" "fs_type (plain_fs t) = t"
  by (simp_all add: sort_func_def plain_fs_def positional_def)

text \<open>
  The claim as stated fails: the sentinel is not maximal among Python's integers. A structure
  without \<open>begin\<close> and \<open>end\<close> is added first, then a positional one that begins and ends at
  \<open>2 ^ 63\<close>, which is \<open>sys.maxsize + 1\<close>; the positional one is indexed after the other.
\<close>

theorem index_order_counterexample:
  "(let doc = new_document (\<lambda>_. None) [plain_fs ''T'', annotation ''T'' (2 ^ 63) (2 ^ 63)];
        h = add_annotations (fst doc) [0, 1] (snd doc)
    in map snd (type_index (h_view h (current_view (fst doc))) ''T'') = [0, 1]
     \<and> \<not> positional (h_fs h 0) \<and> positional (h_fs h 1))"
  unfolding Let_def
  by (simp add: type_index_add_annotation add_annotation_fs add_annotation_sort_func
      add_annotations_fs new_document_fs new_document_index store_of_fs skl_add_Nil skl_add_Cons
      maxsize_def)

text \<open>
  The theorem at a new document to which four structures of one type are added: spans
  \<open>[5,7)\<close>, none, \<open>[1,3)\<close> and \<open>[5,7)\<close> again.
\<close>

theorem index_order_witness:
  "(let doc = new_document (\<lambda>_. None) [annotation ''T'' 5 7, plain_fs ''T'', annotation ''T'' 1 3, annotation ''T'' 5 7];
        h = add_annotations (fst doc) [0, 1, 2, 3] (snd doc);
        bucket = type_index (h_view h (current_view (fst doc))) ''T'';
        key = (\<lambda>e. sort_func (h_fs h (snd e)))
    in index_ok (snd doc) (current_view (fst doc))
     \<and> map snd bucket = [2, 0, 3, 1]
     \<and> key (bucket ! 0) \<le> key (bucket ! 1)
     \<and> map snd (filter (\<lambda>e. key e = (5, 7)) bucket) = [0, 3])"
proof -
  let ?doc = "new_document (\<lambda>_. None) [annotation ''T'' 5 7, plain_fs ''T'', annotation ''T'' 1 3, annotation ''T'' 5 7]"
  let ?h = "add_annotations (fst ?doc) [0, 1, 2, 3] (snd ?doc)"
  let ?bucket = "type_index (h_view ?h (current_view (fst ?doc))) ''T''"
  let ?key = "\<lambda>e :: key \<times> addr. sort_func (h_fs ?h (snd e))"
  have ok: "index_ok (snd ?doc) (current_view (fst ?doc))"
    by (rule index_ok_new_document)
  note facts = index_order [OF ok, of "[0, 1, 2, 3]" "''T''", unfolded Let_def]
  have bucket: "?bucket = [((1, 3), 2), ((5, 7), 0), ((5, 7), 3), ((maxsize, maxsize), 1)]"
    by (simp add: type_index_add_annotation add_annotation_fs add_annotation_sort_func
        new_document_fs new_document_index store_of_fs skl_add_Nil skl_add_Cons maxsize_def)
  have adjacent: "?key (?bucket ! 0) \<le> ?key (?bucket ! 1)"
    using facts [THEN conjunct1, rule_format, of 0] unfolding bucket by simp
  have stable: "map snd (filter (\<lambda>e. ?key e = (5, 7)) ?bucket) = [0, 3]"
    using facts [THEN conjunct2, THEN conjunct2, rule_format, of "(5, 7)"] unfolding bucket
    by (simp add: add_annotation_sort_func new_document_fs new_document_index store_of_fs)
  show ?thesis
    unfolding Let_def using ok adjacent stable unfolding bucket by simp
qed

section \<open>Containment queries\<close>

lemma bind_Inr [simp]: "bind (Inr x) f = f x"
  by (simp add: bind_def)

lemma bind_Inl [simp]: "bind (Inl e) f = Inl e"
  by (simp add: bind_def)

lemma covering_loop_positional:
  "\<forall>a\<in>set as. positional (h_fs h a) \<Longrightarrow>
     covering_loop h c_begin c_end as =
       Inr (filter (\<lambda>a. fs_begin (h_fs h a) \<le> c_begin \<and> c_end \<le> fs_end (h_fs h a)) as)"
  by (induction as) (auto simp: get_begin_def get_end_def positional_def)

text \<open>
  Claim C9, as amended. Let the type name be known to the type system, let the anchor expose
  \<open>begin\<close> and \<open>end\<close>, and let every structure in the current view's buckets of that type and of
  the children the type system lists for it expose \<open>begin\<close> and \<open>end\<close>. Then
  \<open>select_covering\<close> yields exactly the structures of those buckets with
  \<open>begin \<le> anchor.begin\<close> and \<open>anchor.end \<le> end\<close>, bucket after bucket and within a bucket in
  index order.
\<close>

theorem select_covering_exact:
  assumes known: "typesystem cas type_name = Some t"
    and anchor: "positional (h_fs h anchor)"
    and candidates: "\<forall>n\<in>set (type_names t type_name).
        \<forall>e\<in>set (type_index (h_view h (current_view cas)) n). positional (h_fs h (snd e))"
  shows "select_covering cas type_name anchor h =
     Inr (concat (map (\<lambda>n. filter (\<lambda>a. fs_begin (h_fs h a) \<le> fs_begin (h_fs h anchor)
                                       \<and> fs_end (h_fs h anchor) \<le> fs_end (h_fs h a))
                               (map snd (type_index (h_view h (current_view cas)) n)))
                      (type_names t type_name)))"
proof -
  let ?all = "concat (map (\<lambda>name. map snd (type_index (h_view h (current_view cas)) name))
                        (type_names t type_name))"
  have "\<forall>a\<in>set ?all. positional (h_fs h a)"
    using candidates by auto
  then have "covering_loop h (fs_begin (h_fs h anchor)) (fs_end (h_fs h anchor)) ?all =
      Inr (filter (\<lambda>a. fs_begin (h_fs h a) \<le> fs_begin (h_fs h anchor)
                        \<and> fs_end (h_fs h anchor) \<le> fs_end (h_fs h a)) ?all)"
    by (rule covering_loop_positional)
  then show ?thesis
    using known anchor
    by (simp add: select_covering_def get_feature_structures_def get_type_def get_begin_def
        get_end_def positional_def filter_concat comp_def)
qed


lemma add_annotations_get:
  "get_begin (h_fs (add_annotations c as h) b) = get_begin (h_fs h b)"
  "get_end (h_fs (add_annotations c as h) b) = get_end (h_fs h b)"
  by (induction as arbitrary: h) (simp_all add: get_begin_def get_end_def add_annotation_fs)

lemma new_document_typesystem: "typesystem (fst (new_document ts fss)) = ts"
  by (simp add: new_document_def Cas_init_eq)

lemma get_annotation [simp]:
  "get_begin (annotation t b e) = Inr b" "get_end (annotation t b e) = Inr e"
  "fs_begin (annotation t b e) = b" "fs_end (annotation t b e) = e"
  "get_begin (plain_fs t) = Inl AttributeError"
  by (simp_all add: get_begin_def get_end_def annotation_def plain_fs_def)


lemma type_index_add_annotations:
  "type_index (h_view (add_annotations c as h) (current_view c)) n =
     foldl (\<lambda>l a. if n = fs_type (h_fs h a) then skl_add l (sort_func (h_fs h a)) a else l)
       (type_index (h_view h (current_view c)) n) as"
  by (induction as arbitrary: h)
    (simp_all add: type_index_add_annotation add_annotation_fs add_annotation_sort_func cong: if_cong)

lemma document_typesystem: "typesystem (fst (document ts fss)) = ts"
  by (simp add: document_def Let_def new_document_typesystem)

lemma document_fs:
  assumes "a < length fss"
  shows "get_begin (h_fs (snd (document ts fss)) a) = get_begin (fss ! a)"
    and "get_end (h_fs (snd (document ts fss)) a) = get_end (fss ! a)"
    and "positional (h_fs (snd (document ts fss)) a) = positional (fss ! a)"
    and "fs_begin (h_fs (snd (document ts fss)) a) = fs_begin (fss ! a)"
    and "fs_end (h_fs (snd (document ts fss)) a) = fs_end (fss ! a)"
proof -
  have fields: "slots (h_fs (add_annotations c as h) b) = slots (h_fs h b)"
    "fs_begin (h_fs (add_annotations c as h) b) = fs_begin (h_fs h b)"
    "fs_end (h_fs (add_annotations c as h) b) = fs_end (h_fs h b)" for c as h b
    by (induction as arbitrary: h) (simp_all add: add_annotation_fs)
  show "get_begin (h_fs (snd (document ts fss)) a) = get_begin (fss ! a)"
    "get_end (h_fs (snd (document ts fss)) a) = get_end (fss ! a)"
    "positional (h_fs (snd (document ts fss)) a) = positional (fss ! a)"
    "fs_begin (h_fs (snd (document ts fss)) a) = fs_begin (fss ! a)"
    "fs_end (h_fs (snd (document ts fss)) a) = fs_end (fss ! a)"
    using assms
    by (simp_all add: document_def Let_def get_begin_def get_end_def positional_def fields
        new_document_fs store_of_fs)
qed

lemma document_index:
  "type_index (h_view (snd (document ts fss)) (current_view (fst (document ts fss)))) n =
     foldl (\<lambda>l a. if n = fs_type (fss ! a) then skl_add l (sort_func (fss ! a)) a else l)
       [] [0..<length fss]"
proof -
  have "foldl (\<lambda>l a. if n = fs_type (h_fs (store_of fss) a)
                      then skl_add l (sort_func (h_fs (store_of fss) a)) a else l) [] [0..<length fss] =
        foldl (\<lambda>l a. if n = fs_type (fss ! a) then skl_add l (sort_func (fss ! a)) a else l)
          [] [0..<length fss]"
    by (rule foldl_cong) (simp_all add: store_of_fs)
  then show ?thesis
    by (simp add: document_def Let_def type_index_add_annotations new_document_fs new_document_index
        cong: if_cong)
qed

lemmas document_eval = document_typesystem document_fs document_index get_type_def types_of_def
  type_names_def skl_add_Nil skl_add_Cons

text \<open>
  The claim as stated fails for a known type whose bucket holds a structure without \<open>begin\<close>
  and \<open>end\<close>: the full scan reads \<open>annotation.begin\<close> of every candidate, and the query
  raises \<open>AttributeError\<close> instead of yielding the (empty) set of covering structures.
\<close>

theorem select_covering_exact_counterexample:
  "select_covering (fst (document (types_of [(''T'', []), (''A'', [])]) [annotation ''A'' 2 5, plain_fs ''T'']))
      ''T'' 0 (snd (document (types_of [(''T'', []), (''A'', [])]) [annotation ''A'' 2 5, plain_fs ''T'']))
    = Inl AttributeError"
  by (simp add: select_covering_def get_feature_structures_def document_eval)

text \<open>
  The theorem at the spec's example, with a subtype: \<open>A = [0,10)\<close> of type \<open>T\<close> at address 0,
  the anchor \<open>B = [2,5)\<close> at address 1, \<open>C = [2,11)\<close> of the subtype \<open>S\<close> at address 2, and
  \<open>[3,4)\<close> of type \<open>T\<close> at address 3. The query yields \<open>C\<close> and \<open>A\<close>.
\<close>

theorem select_covering_exact_witness:
  "(let doc = document (types_of [(''T'', [''S'']), (''S'', []), (''B'', [])])
                [annotation ''T'' 0 10, annotation ''B'' 2 5, annotation ''S'' 2 11, annotation ''T'' 3 4]
    in typesystem (fst doc) ''T'' = Some \<lparr>t_name = ''T'', supertypeName = ''uima.cas.TOP'', children = [''S''],
                                              all_features = [], t_slots = []\<rparr>
     \<and> positional (h_fs (snd doc) 1)
     \<and> select_covering (fst doc) ''T'' 1 (snd doc) = Inr [2, 0])"
proof -
  let ?doc = "document (types_of [(''T'', [''S'']), (''S'', []), (''B'', [])])
                [annotation ''T'' 0 10, annotation ''B'' 2 5, annotation ''S'' 2 11, annotation ''T'' 3 4]"
  let ?t = "\<lparr>t_name = ''T'', supertypeName = ''uima.cas.TOP'', children = [''S''],
                                              all_features = [], t_slots = []\<rparr>"
  have known: "typesystem (fst ?doc) ''T'' = Some ?t"
    by (simp add: document_eval)
  have anchor: "positional (h_fs (snd ?doc) 1)"
    by (simp add: document_eval)
  have candidates: "\<forall>n\<in>set (type_names ?t ''T'').
        \<forall>e\<in>set (type_index (h_view (snd ?doc) (current_view (fst ?doc))) n).
           positional (h_fs (snd ?doc) (snd e))"
    by (simp add: document_eval)
  have "select_covering (fst ?doc) ''T'' 1 (snd ?doc) = Inr [2, 0]"
    using select_covering_exact [OF known anchor candidates]
    by (simp add: document_eval)
  with known anchor show ?thesis
    unfolding Let_def by blast
qed


text \<open>
  Claim C4 (a defect of the code). The window that \<open>_get_feature_structures_in_range\<close> cuts
  out of a bucket starts one entry before \<open>bisect_key_left((begin, end))\<close>. Every structure
  that begins where the anchor begins and ends before the anchor ends has a key below
  \<open>(begin, end)\<close>, so all but the last of them fall outside the window. With the anchor
  \<open>[0,10)\<close> and the candidates \<open>[0,1)\<close> and \<open>[0,2)\<close> of type \<open>T\<close> (addresses 1 and 2), both are
  covered and \<open>select_covered\<close> yields only the second. The spec's own example (anchor
  \<open>[0,10)\<close>, candidates \<open>[2,5)\<close> and \<open>[2,11)\<close>) comes out as claimed.
\<close>

theorem select_covered_omits:
  "(let doc = document (types_of [(''T'', []), (''A'', [])])
                [annotation ''A'' 0 10, annotation ''T'' 0 1, annotation ''T'' 0 2];
        h = snd doc
    in map snd (type_index (h_view h (current_view (fst doc))) ''T'') = [1, 2]
     \<and> fs_begin (h_fs h 0) \<le> fs_begin (h_fs h 1) \<and> fs_end (h_fs h 1) \<le> fs_end (h_fs h 0)
     \<and> select_covered (fst doc) ''T'' 0 h = Inr [2])
   \<and> (let doc = document (types_of [(''T'', []), (''A'', [])])
                [annotation ''A'' 0 10, annotation ''T'' 2 5, annotation ''T'' 2 11]
      in select_covered (fst doc) ''T'' 0 (snd doc) = Inr [1])"
proof -
  let ?ts = "types_of [(''T'', []), (''A'', [])]"
  let ?d1 = "document ?ts [annotation ''A'' 0 10, annotation ''T'' 0 1, annotation ''T'' 0 2]"
  let ?d2 = "document ?ts [annotation ''A'' 0 10, annotation ''T'' 2 5, annotation ''T'' 2 11]"
  have b1: "type_index (h_view (snd ?d1) (current_view (fst ?d1))) ''T'' = [((0, 1), 1), ((0, 2), 2)]"
    by (simp add: document_eval)
  have b2: "type_index (h_view (snd ?d2) (current_view (fst ?d2))) ''T'' = [((2, 5), 1), ((2, 11), 2)]"
    by (simp add: document_eval)
  have r1: "get_feature_structures_in_range (fst ?d1) ''T'' 0 10 (snd ?d1) = Inr [2]"
    by (simp add: get_feature_structures_in_range_def document_typesystem get_type_def types_of_def
        type_names_def b1 bisect_key_left_def bisect_key_right_def slice_def)
  have r2: "get_feature_structures_in_range (fst ?d2) ''T'' 0 10 (snd ?d2) = Inr [1, 2]"
    by (simp add: get_feature_structures_in_range_def document_typesystem get_type_def types_of_def
        type_names_def b2 bisect_key_left_def bisect_key_right_def slice_def)
  have s1: "select_covered (fst ?d1) ''T'' 0 (snd ?d1) = Inr [2]"
    by (simp add: select_covered_def document_fs r1)
  have s2: "select_covered (fst ?d2) ''T'' 0 (snd ?d2) = Inr [1]"
    by (simp add: select_covered_def document_fs r2)
  have c1: "fs_begin (h_fs (snd ?d1) 0) \<le> fs_begin (h_fs (snd ?d1) 1)
      \<and> fs_end (h_fs (snd ?d1) 1) \<le> fs_end (h_fs (snd ?d1) 0)"
    by (simp add: document_fs)
  show ?thesis
    unfolding Let_def using s1 s2 c1 by (simp add: b1)
qed

section \<open>Adding an annotation\<close>

text \<open>
  What \<open>add_annotation\<close> changes: the identifier generator moves on by one, the structure
  gets the identifier that was next and, if it has a \<open>sofa\<close> slot, the sofa of the current
  view, and the current view's bucket for the structure's type gets the structure at the
  place its key asks for. Nothing else is written.
\<close>

lemma add_annotation_effect:
  "add_annotation cas a h =
     h\<lparr>h_gen := (h_gen h)(xmi_id_generator cas := h_gen h (xmi_id_generator cas) + 1),
       h_fs := (h_fs h)(a := (h_fs h a)\<lparr>xmiID := Some (h_gen h (xmi_id_generator cas)),
           feats := (if ''sofa'' \<in> set (slots (h_fs h a))
                     then dict_set (feats (h_fs h a)) ''sofa'' (PSofa (view_sofa (h_view h (current_view cas))))
                     else feats (h_fs h a))\<rparr>),
       h_view := (h_view h)(current_view cas := (h_view h (current_view cas))\<lparr>indices :=
           dict_set (indices (h_view h (current_view cas))) (fs_type (h_fs h a))
             (skl_add (type_index (h_view h (current_view cas)) (fs_type (h_fs h a)))
                (sort_func (h_fs h a)) a)\<rparr>)\<rparr>"
  by (simp add: add_annotation_def add_annotation_to_index_def get_next_xmi_id_def generate_id_def
      get_sofa_def Let_def sort_func_def)

text \<open>
  Claim C7 (a defect of the code). \<open>Cas.add_annotation\<close> has no mode that keeps the identifier
  a structure already carries: the call \<open>add_annotation(fs, keep_id=True)\<close>, which
  \<open>CasJsonDeserializer._parse_view\<close> makes, is rejected with \<open>TypeError\<close> before anything is
  changed, and the call without the keyword always replaces the identifier by the next one
  of the generator.
\<close>

theorem add_annotation_no_keep_mode:
  "add_annotation_call cas a [(''keep_id'', True)] h = (Inl TypeError, h)
   \<and> add_annotation_call cas a [] h = (Inr (), add_annotation cas a h)
   \<and> xmiID (h_fs (add_annotation cas a h) a) = Some (h_gen h (xmi_id_generator cas))"
  by (simp add: add_annotation_call_def add_annotation_def add_annotation_to_index_def
      get_next_xmi_id_def generate_id_def Let_def)

section \<open>Deserialization\<close>

lemmas names = RESERVED_FIELD_PREFIX_def REF_FEATURE_PREFIX_def TYPE_FIELD_def ID_FIELD_def
  ELEMENTS_FIELD_def VIEW_SOFA_FIELD_def VIEW_INDEX_FIELD_def TYPE_NAME_SOFA_def
  TYPE_NAME_BYTE_ARRAY_def NAME_DEFAULT_SOFA_def FEATURE_BASE_NAME_SOFAID_def
  FEATURE_BASE_NAME_SOFANUM_def FEATURE_BASE_NAME_SOFASTRING_def FEATURE_BASE_NAME_SOFAMIME_def
  FEATURE_BASE_NAME_SOFAURI_def FEATURE_BASE_NAME_SOFAARRAY_def

lemmas records_eval = records_of_def parse_record_def parse_feature_structure_def type_of_record_def
  get_type_def rename_key_def dict_has_def dict_pop_def resolve_references_def startswith_def
  strip_reserved_json_keys_def construct_def int_slot_def json_get_def table_get_def alloc_def
  b64decode_def

lemmas deserialize_eval = deserialize_def parse_sofa_def
  get_or_create_view_def get_view_def copy_def Cas_init_eq opt_int_def get_sofa_def
  set_sofa_fields_def IdGenerator_def create_view_ids_def add_view_ids_def get_next_xmi_id_def
  get_next_sofa_num_def generate_id_def

lemma add_annotation_keep_id_effect:
  "add_annotation_keep_id self a h =
     h\<lparr>h_fs := (h_fs h)(a := (h_fs h a)\<lparr>
           feats := (if ''sofa'' \<in> set (slots (h_fs h a))
                     then dict_set (feats (h_fs h a)) ''sofa'' (PSofa (view_sofa (h_view h (current_view self))))
                     else feats (h_fs h a))\<rparr>),
       h_view := (h_view h)(current_view self := (h_view h (current_view self))\<lparr>indices :=
           dict_set (indices (h_view h (current_view self))) (fs_type (h_fs h a))
             (skl_add (type_index (h_view h (current_view self)) (fs_type (h_fs h a)))
                (sort_func (h_fs h a)) a)\<rparr>)\<rparr>"
  by (simp add: add_annotation_keep_id_def add_annotation_to_index_def get_sofa_def Let_def
      sort_func_def)

lemmas views_eval = parse_view_def add_annotation_keep_id_effect
  type_index_def sort_func_def skl_add_Nil skl_add_Cons
  select_all_def get_all_annotations_def

lemma run_post_processors_fs: "h_fs (snd (run_post_processors ps tab h)) = h_fs h"
  by (induction ps arbitrary: h) (simp_all split: sum.splits)

text \<open>
  Claim C2 (a defect of the code). A reference whose target is not built yet is deferred to
  a fix-up, and the fix-up writes the dictionary \<open>attributes\<close>. The feature structure was
  built from a copy of that dictionary (\<open>AnnotationType(**attributes)\<close>) before any fix-up
  runs, so no fix-up ever changes a feature structure: after deserialization a forward
  reference is unset. In the input below record 1 refers to the later records 2 and 3 and
  record 2 refers back to record 1. The result holds the three structures at addresses 7, 9
  and 11; both reference fields of the first are unset, the backward reference of the second
  is resolved. The two fix-ups of record 1 both wrote \<open>other\<close> in the dead dictionary (at
  address 6), with the structure the record's own identifier names: they share the
  variables \<open>feature_name\<close> and \<open>value\<close>, which hold what the loop assigned last.
\<close>

theorem forward_references_dropped:
  "h_fs (snd (run_post_processors ps tab h)) = h_fs h
   \<and> (\<exists>cas h. deserialize forward_reference_wire links_types heap0 = (Inr cas, h)
        \<and> select_all cas h = [7, 9, 11]
        \<and> xmiID (h_fs h 7) = Some 1 \<and> xmiID (h_fs h 9) = Some 2 \<and> xmiID (h_fs h 11) = Some 3
        \<and> map_of (feats (h_fs h 7)) ''next'' = None
        \<and> map_of (feats (h_fs h 7)) ''other'' = None
        \<and> map_of (feats (h_fs h 9)) ''next'' = Some (PRef 7)
        \<and> h_attrs h 6 = [(''xmiID'', PInt 1), (''other'', PRef 7)])"
proof -
  have "\<exists>cas h. deserialize forward_reference_wire links_types heap0 = (Inr cas, h)
        \<and> select_all cas h = [7, 9, 11]
        \<and> xmiID (h_fs h 7) = Some 1 \<and> xmiID (h_fs h 9) = Some 2 \<and> xmiID (h_fs h 11) = Some 3
        \<and> map_of (feats (h_fs h 7)) ''next'' = None
        \<and> map_of (feats (h_fs h 7)) ''other'' = None
        \<and> map_of (feats (h_fs h 9)) ''next'' = Some (PRef 7)
        \<and> h_attrs h 6 = [(''xmiID'', PInt 1), (''other'', PRef 7)]"
    by (simp add: forward_reference_wire_def links_types_def type_table_def deserialize_eval
        records_eval views_eval names heap0_def Let_def)
  then show ?thesis
    by (simp add: run_post_processors_fs)
qed

text \<open>
  Claim C3 (a defect of the code). \<open>_max_sofa_num\<close> is never assigned after it is reset to 0,
  and \<open>_max_xmi_id\<close> is raised only by \<open>_parse_feature_structure\<close>, not for \<open>Sofa\<close> records. For
  the input that holds the \<open>Sofa\<close> record with identifier 5 and sofa number 3, the document
  returned has a sofa with identifier 5, and both generators issue 1 next.
\<close>

theorem allocators_not_seeded_past_sofas:
  "\<exists>cas h. deserialize sofa_record_wire ts heap0 = (Inr cas, h)
     \<and> sofa_xmiID (h_sofa h (get_sofa cas h)) = 5
     \<and> fst (get_next_xmi_id cas h) = 1
     \<and> fst (get_next_sofa_num cas h) = 1"
  by (simp add: sofa_record_wire_def deserialize_eval records_eval names heap0_def Let_def)

section \<open>The round trip\<close>

lemmas document_unfold = linked_document_def document_def new_document_def store_of_def heap0_def
  Cas_init_eq add_annotation_effect link_def type_index_def sort_func_def skl_add_Nil skl_add_Cons

lemmas serialize_eval = serialize_def views_def serialize_view_def get_all_annotations_def
  sorted_by_id_def id_value_def serialize_feature_structure_def getattr_def sofa_getattr_def
  fs_getattr_def type_of_record_def get_type_def doc_types_def type_table_def COMMON_FIELD_NAMES_def
  TYPE_NAME_ARRAY_BASE_def uima_primitive_def find_all_fs_def refs_of_def json_get_def

lemma reachable_pos:
  "0 < fuel \<Longrightarrow> reachable h fuel (a # work) seen =
     (if a \<in> set seen then reachable h fuel work seen
      else reachable h (fuel - 1) (refs_of (h_fs h a) @ work) (seen @ [a]))"
  by (cases fuel) simp_all

lemma linked_document_serialized:
  "serialize uima_primitive (fst linked_document) (snd linked_document) =
     Inr \<lparr>FEATURE_STRUCTURES_FIELD = FsList
            [[(''%ID'', PInt 1), (''%TYPE'', PStr ''uima.cas.Sofa''),
              (''sofaNum'', PInt 1), (''sofaID'', PStr ''_InitialView'')],
             [(''%ID'', PInt 2), (''%TYPE'', PStr ''T''), (''@next'', PInt 3)],
             [(''%ID'', PInt 3), (''%TYPE'', PStr ''T'')]],
          VIEWS_FIELD = Some [(''_InitialView'', [(''%SOFA'', PInt 1), (''%INDEX'', PList [PInt 2, PInt 3])])]\<rparr>"
  by (simp add: document_unfold serialize_eval names reachable_pos Let_def)


lemma two_view_document_serialized:
  "serialize uima_primitive (fst two_view_document) (snd two_view_document) =
     Inr \<lparr>FEATURE_STRUCTURES_FIELD = FsList
            [[(''%ID'', PInt 1), (''%TYPE'', PStr ''uima.cas.Sofa''),
              (''sofaNum'', PInt 1), (''sofaID'', PStr ''_InitialView'')],
             [(''%ID'', PInt 2), (''%TYPE'', PStr ''uima.cas.Sofa''),
              (''sofaNum'', PInt 2), (''sofaID'', PStr ''X'')]],
          VIEWS_FIELD = Some [(''_InitialView'', [(''%SOFA'', PInt 1), (''%INDEX'', PList [])]),
                              (''X'', [(''%SOFA'', PInt 2), (''%INDEX'', PList [])])]\<rparr>"
  by (simp add: two_view_document_def new_document_def store_of_def heap0_def Cas_init_eq
      create_view_def dict_has_def add_view_def alloc_def get_view_def copy_def get_next_xmi_id_def
      get_next_sofa_num_def generate_id_def serialize_eval names Let_def)

text \<open>
  A document with a second view does not come back at all: the view is created when its
  \<open>Sofa\<close> record is read, and \<open>_parse_view\<close> creates it again, which fails with the
  duplicate-view error.
\<close>

lemma second_view_not_reloaded:
  "\<exists>w h'. serialize uima_primitive (fst two_view_document) (snd two_view_document) = Inr w
     \<and> load_cas_from_json w doc_types heap0 = (Inl ValueError, h')"
  by (simp add: two_view_document_serialized load_cas_from_json_def doc_types_def type_table_def
      deserialize_eval records_eval views_eval names heap0_def dict_has_def Let_def)

text \<open>
  Claim C1 (a defect of the code). The document \<open>linked_document\<close> holds two structures with
  the identifiers 2 and 3; the field \<open>next\<close> of the first refers to the second. Its
  serialization lists the records in ascending identifier order, so the reference is a
  forward reference, and the deserializer drops it (claim C2): the reloaded document holds
  structures with the same identifiers, but \<open>next\<close> of the first is unset. Field values and
  reference graph differ from the original's.
\<close>

theorem round_trip_loses_references:
  "\<exists>w cas' h'. serialize uima_primitive (fst linked_document) (snd linked_document) = Inr w
     \<and> load_cas_from_json w doc_types heap0 = (Inr cas', h')
     \<and> select_all (fst linked_document) (snd linked_document) = [0, 1]
     \<and> xmiID (h_fs (snd linked_document) 0) = Some 2
     \<and> xmiID (h_fs (snd linked_document) 1) = Some 3
     \<and> map_of (feats (h_fs (snd linked_document) 0)) ''next'' = Some (PRef 1)
     \<and> select_all cas' h' = [13, 15]
     \<and> xmiID (h_fs h' 13) = Some 2
     \<and> xmiID (h_fs h' 15) = Some 3
     \<and> map_of (feats (h_fs h' 13)) ''next'' = None"
proof -
  let ?w = "\<lparr>FEATURE_STRUCTURES_FIELD = FsList
            [[(''%ID'', PInt 1), (''%TYPE'', PStr ''uima.cas.Sofa''),
              (''sofaNum'', PInt 1), (''sofaID'', PStr ''_InitialView'')],
             [(''%ID'', PInt 2), (''%TYPE'', PStr ''T''), (''@next'', PInt 3)],
             [(''%ID'', PInt 3), (''%TYPE'', PStr ''T'')]],
          VIEWS_FIELD = Some [(''_InitialView'', [(''%SOFA'', PInt 1), (''%INDEX'', PList [PInt 2, PInt 3])])]\<rparr>"
  have original: "select_all (fst linked_document) (snd linked_document) = [0, 1]
     \<and> xmiID (h_fs (snd linked_document) 0) = Some 2
     \<and> xmiID (h_fs (snd linked_document) 1) = Some 3
     \<and> map_of (feats (h_fs (snd linked_document) 0)) ''next'' = Some (PRef 1)"
    by (simp add: document_unfold select_all_def get_all_annotations_def Let_def)
  have copy: "\<exists>cas' h'. load_cas_from_json ?w doc_types heap0 = (Inr cas', h')
     \<and> select_all cas' h' = [13, 15]
     \<and> xmiID (h_fs h' 13) = Some 2
     \<and> xmiID (h_fs h' 15) = Some 3
     \<and> map_of (feats (h_fs h' 13)) ''next'' = None"
    by (simp add: load_cas_from_json_def doc_types_def type_table_def deserialize_eval records_eval
        views_eval names heap0_def Let_def)
  show ?thesis
    using original copy by (simp add: linked_document_serialized)
qed

end
